theory Spec2Isabelle
  imports Main "HOL-Library.Sublist"
begin

section \<open>Data model of \<^verbatim>\<open>packages/plugin-hardhat/src/utils/deploy-impl.ts\<close>\<close>

text \<open>
  The module orchestrates the deployment of an implementation contract: it resolves the
  deploy data of the candidate, classifies the proxy or beacon it is meant for, runs the
  two safety gates and asks the deployment cache for a deployment. Every step but the
  orchestration itself is a collaborator imported from \<^verbatim>\<open>@openzeppelin/upgrades-core\<close>,
  \<^verbatim>\<open>ethers\<close> or a sibling module. The collaborators are parameters of the model (the
  record \<open>env\<close> below); the orchestration is translated line by line.
\<close>

type_synonym address = string
type_synonym TransactionResponse = string

text \<open>An \<^verbatim>\<open>EthereumProvider\<close> is a handle on a network; the model identifies it with the
  chain id it answers with.\<close>

type_synonym EthereumProvider = nat

text \<open>A \<^verbatim>\<open>Manifest\<close> object is a handle on the manifest file of one network.\<close>

type_synonym Manifest = nat

record Version =
  withMetadata :: string
  withoutMetadata :: string
  linkedWithoutMetadata :: string

record StorageItem =
  label :: string
  item_type :: string
  slot :: nat
  offset :: nat
  contract :: string

type_synonym StorageLayout = "StorageItem list"

record ContractValidation =
  cv_layout :: StorageLayout
  cv_errors :: "string list"

type_synonym ValidationDataCurrent = "(string \<times> ContractValidation) list"

datatype ProxyKind = Transparent | UUPS | Beacon

datatype FormatTypes = Sighash | Minimal | Full | Json

datatype error =
    AmbiguousBytecodeError
  | UnknownVersionError
  | UnrecordedImplementationError
  | UpgradeSafetyError "string list"
  | StorageLayoutError "string list"
  | ProxyKindMismatchError
  | NotABeaconTargetError
  | OtherError string

text \<open>\<^verbatim>\<open>ImplFactory.interface\<close> is an object with the two methods the module calls;
  \<^verbatim>\<open>opts.constructorArgs\<close> may be undefined, hence the option.\<close>

record Interface =
  encodeDeploy :: "string list option \<Rightarrow> error + string"
  format :: "FormatTypes \<Rightarrow> string list"

record ContractFactory =
  bytecode :: string
  interface :: Interface

text \<open>\<^verbatim>\<open>Required<Options>\<close>: every field present.\<close>

record FullOptions =
  constructorArgs :: "string list"
  unsafeAllow :: "string list"
  unsafeSkipStorageCheck :: bool
  kind :: ProxyKind

text \<open>\<^verbatim>\<open>Options\<close> and \<^verbatim>\<open>PrepareUpgradeOptions\<close>: every field optional.\<close>

record Options =
  constructorArgs :: "string list option"
  unsafeAllow :: "string list option"
  unsafeSkipStorageCheck :: "bool option"
  kind :: "ProxyKind option"
  getTxResponse :: "bool option"

record HardhatRuntimeEnvironment =
  network_provider :: EthereumProvider
  config_paths_cache :: string

record DeployData =
  provider :: EthereumProvider
  validations :: ValidationDataCurrent
  unlinkedBytecode :: string
  encodedArgs :: string
  version :: Version
  layout :: StorageLayout
  fullOpts :: FullOptions

text \<open>What \<^verbatim>\<open>deploy\<close> of \<^verbatim>\<open>./deploy\<close> resolves to.\<close>

record Deployed =
  address :: address
  txHash :: string
  deployTransaction :: TransactionResponse

text \<open>A deployment as the cache hands it back: the callback's object on a miss (it has
  the \<^verbatim>\<open>deployTransaction\<close> key), the stored record on a hit (it has not).\<close>

record Deployment =
  address :: address
  txHash :: "string option"
  deployTransaction :: "TransactionResponse option"
  abi :: "string list"
  layout :: StorageLayout

text \<open>\<^verbatim>\<open>txResponse\<close> is either the transaction of the deployment just made or the
  promise \<^verbatim>\<open>hre.ethers.provider.getTransaction(txHash)\<close>, which the module does not await.\<close>

datatype TxResponse = DeployTransaction TransactionResponse | GetTransaction string

record DeployedImpl =
  impl :: address
  kind :: "ProxyKind option"
  txResponse :: "TxResponse option"

subsection \<open>The world and the calls made on it\<close>

text \<open>
  The manifest is the per-network map from a version to its deployment record, kept in
  insertion order; \<open>outside\<close> is everything else the collaborators read or change (the
  file system, the chain).
\<close>

record 'x World =
  manifest :: "((EthereumProvider \<times> Version) \<times> Deployment) list"
  outside :: 'x

text \<open>One event per call of a collaborator, recorded when the call is made, whether it
  returns or throws.\<close>

datatype event =
    EvReadValidations
  | EvGetUnlinkedBytecode
  | EvEncodeDeploy
  | EvGetVersion
  | EvGetStorageLayout
  | EvProcessProxyKind "address option"
  | EvGetImplementationAddress address
  | EvAssertNotProxy address
  | EvGetImplementationAddressFromBeacon address
  | EvAssertUpgradeSafe
  | EvManifestForNetwork
  | EvGetStorageLayoutForAddress address
  | EvAssertStorageUpgradeSafe StorageLayout StorageLayout
  | EvFetchOrDeployGetDeployment Version
  | EvDeploy
  | EvManifestInsert Version Deployment
  | EvGetTransaction string

text \<open>A computation takes the world and returns its result or the error thrown, the
  world it leaves and the calls it made, in order.\<close>

type_synonym ('w, 'a) io = "'w \<Rightarrow> (error + 'a) \<times> 'w \<times> event list"

definition io_return :: "'a \<Rightarrow> ('w, 'a) io" where
  "io_return x = (\<lambda>w. (Inr x, w, []))"

definition io_bind :: "('w, 'a) io \<Rightarrow> ('a \<Rightarrow> ('w, 'b) io) \<Rightarrow> ('w, 'b) io" where
  "io_bind m f = (\<lambda>w. case m w of
       (Inl e, w', t) \<Rightarrow> (Inl e, w', t)
     | (Inr x, w', t) \<Rightarrow> (case f x w' of (r, w'', t') \<Rightarrow> (r, w'', t @ t')))"

definition io_emit :: "event \<Rightarrow> ('w, unit) io" where
  "io_emit ev = (\<lambda>w. (Inr (), w, [ev]))"

definition io_read :: "('w \<Rightarrow> 'a) \<Rightarrow> ('w, 'a) io" where
  "io_read f = (\<lambda>w. (Inr (f w), w, []))"

definition io_modify :: "('w \<Rightarrow> 'w) \<Rightarrow> ('w, unit) io" where
  "io_modify f = (\<lambda>w. (Inr (), f w, []))"

text \<open>A synchronous call that reads nothing but its arguments.\<close>

definition call_pure :: "event \<Rightarrow> error + 'a \<Rightarrow> ('w, 'a) io" where
  "call_pure ev r = (\<lambda>w. (r, w, [ev]))"

text \<open>An awaited call that reads the world and leaves it as it is.\<close>

definition call_read :: "event \<Rightarrow> ('w \<Rightarrow> error + 'a) \<Rightarrow> ('w, 'a) io" where
  "call_read ev f = (\<lambda>w. (f w, w, [ev]))"

text \<open>An awaited call that may change what is outside the manifest.\<close>

definition call_outside ::
  "event \<Rightarrow> ('x \<Rightarrow> (error + 'a) \<times> 'x) \<Rightarrow> ('x World, 'a) io" where
  "call_outside ev f = (\<lambda>w. case f (outside w) of (r, x') \<Rightarrow> (r, w\<lparr>outside := x'\<rparr>, [ev]))"

definition result_of :: "(error + 'a) \<times> 'w \<times> event list \<Rightarrow> error + 'a" where
  "result_of r = fst r"

definition world_of :: "(error + 'a) \<times> 'w \<times> event list \<Rightarrow> 'w" where
  "world_of r = fst (snd r)"

definition trace_of :: "(error + 'a) \<times> 'w \<times> event list \<Rightarrow> event list" where
  "trace_of r = snd (snd r)"

subsection \<open>The collaborators\<close>

text \<open>
  The functions the module imports, with the arguments the module passes them. The
  synchronous ones are functions of their arguments; the awaited ones also read the world.
  \<^verbatim>\<open>processProxyKind\<close> receives the caller's \<^verbatim>\<open>opts\<close> object and assigns its
  \<^verbatim>\<open>kind\<close>: it returns the value \<^verbatim>\<open>opts.kind\<close> has afterwards.
  \<^verbatim>\<open>deploy\<close> sends the deployment transaction: it changes the chain, not the manifest.
\<close>

record 'x env =
  readValidations :: "HardhatRuntimeEnvironment \<Rightarrow> 'x World \<Rightarrow> error + ValidationDataCurrent"
  getUnlinkedBytecode :: "ValidationDataCurrent \<Rightarrow> string \<Rightarrow> error + string"
  getVersion :: "string \<Rightarrow> string \<Rightarrow> string \<Rightarrow> error + Version"
  getStorageLayout :: "ValidationDataCurrent \<Rightarrow> Version \<Rightarrow> error + StorageLayout"
  withDefaults :: "Options \<Rightarrow> FullOptions"
  processProxyKind :: "EthereumProvider \<Rightarrow> address option \<Rightarrow> Options \<Rightarrow>
     ValidationDataCurrent \<Rightarrow> Version \<Rightarrow> 'x World \<Rightarrow> error + ProxyKind option"
  getImplementationAddress :: "EthereumProvider \<Rightarrow> address \<Rightarrow> 'x World \<Rightarrow> error + address"
  assertNotProxy :: "EthereumProvider \<Rightarrow> address \<Rightarrow> 'x World \<Rightarrow> error + unit"
  getImplementationAddressFromBeacon ::
    "EthereumProvider \<Rightarrow> address \<Rightarrow> 'x World \<Rightarrow> error + address"
  assertUpgradeSafe :: "ValidationDataCurrent \<Rightarrow> Version \<Rightarrow> FullOptions \<Rightarrow> error + unit"
  Manifest_forNetwork :: "EthereumProvider \<Rightarrow> 'x World \<Rightarrow> error + Manifest"
  getStorageLayoutForAddress ::
    "Manifest \<Rightarrow> ValidationDataCurrent \<Rightarrow> address \<Rightarrow> 'x World \<Rightarrow> error + StorageLayout"
  assertStorageUpgradeSafe :: "StorageLayout \<Rightarrow> StorageLayout \<Rightarrow> FullOptions \<Rightarrow> error + unit"
  deploy :: "ContractFactory \<Rightarrow> string list \<Rightarrow> 'x \<Rightarrow> (error + Deployed) \<times> 'x"

text \<open>
  Modelled from the spec: \<^verbatim>\<open>fetchOrDeployGetDeployment\<close> of \<^verbatim>\<open>@openzeppelin/upgrades-core\<close>
  is not among the sources. The deployment cache looks the version up in the manifest of
  the active network; on a hit it returns the stored record without invoking the
  callback; on a miss it invokes the callback, records the result under the version and
  returns it. The stored record has the fields address, txHash, layout and abi.
\<close>

definition toRecord :: "Deployment \<Rightarrow> Deployment" where
  "toRecord d = d\<lparr>deployTransaction := None\<rparr>"

definition fetchOrDeployGetDeployment ::
  "Version \<Rightarrow> EthereumProvider \<Rightarrow> ('x World, Deployment) io \<Rightarrow> Options
     \<Rightarrow> ('x World, Deployment) io" where
  "fetchOrDeployGetDeployment ver prov deployFn opts =
     io_bind (io_emit (EvFetchOrDeployGetDeployment ver)) (\<lambda>_.
     io_bind (io_read manifest) (\<lambda>store.
       case map_of store (prov, ver) of
         Some stored \<Rightarrow> io_return stored
       | None \<Rightarrow>
           io_bind deployFn (\<lambda>deployment.
           io_bind (io_emit (EvManifestInsert ver (toRecord deployment))) (\<lambda>_.
           io_bind (io_modify (\<lambda>w. w\<lparr>manifest := manifest w @ [((prov, ver), toRecord deployment)]\<rparr>)) (\<lambda>_.
           io_return deployment)))))"

section \<open>The module\<close>

text \<open>\<^verbatim>\<open>getDeployData\<close>, lines 47 to 60.\<close>

definition getDeployData ::
  "'x env \<Rightarrow> HardhatRuntimeEnvironment \<Rightarrow> ContractFactory \<Rightarrow> Options
     \<Rightarrow> ('x World, DeployData) io" where
  "getDeployData env hre ImplFactory opts =
     io_bind (call_read EvReadValidations (readValidations env hre)) (\<lambda>vals.
     io_bind (call_pure EvGetUnlinkedBytecode
                (getUnlinkedBytecode env vals (bytecode ImplFactory))) (\<lambda>unlinked.
     io_bind (call_pure EvEncodeDeploy
                (encodeDeploy (interface ImplFactory) (Options.constructorArgs opts))) (\<lambda>encoded.
     io_bind (call_pure EvGetVersion
                (getVersion env unlinked (bytecode ImplFactory) encoded)) (\<lambda>ver.
     io_bind (call_pure EvGetStorageLayout (getStorageLayout env vals ver)) (\<lambda>lay.
     io_return \<lparr>provider = network_provider hre, validations = vals,
                unlinkedBytecode = unlinked, encodedArgs = encoded, version = ver,
                DeployData.layout = lay, fullOpts = withDefaults env opts\<rparr>)))))"

text \<open>\<^verbatim>\<open>deployImpl\<close>, lines 98 to 138. The third argument of the cache is the callback
  of lines 120 to 124, which closes over \<^verbatim>\<open>layout\<close>.\<close>

definition deployImpl ::
  "'x env \<Rightarrow> HardhatRuntimeEnvironment \<Rightarrow> DeployData \<Rightarrow> ContractFactory \<Rightarrow> Options
     \<Rightarrow> address option \<Rightarrow> ('x World, DeployedImpl) io" where
  "deployImpl env hre deployData ImplFactory opts currentImplAddress =
     io_bind (call_pure EvAssertUpgradeSafe
                (assertUpgradeSafe env (validations deployData) (version deployData)
                   (fullOpts deployData))) (\<lambda>_.
     let layout' = DeployData.layout deployData in
     io_bind (case currentImplAddress of
                None \<Rightarrow> io_return ()
              | Some current \<Rightarrow>
                  io_bind (call_read EvManifestForNetwork
                             (Manifest_forNetwork env (provider deployData))) (\<lambda>m.
                  io_bind (call_read (EvGetStorageLayoutForAddress current)
                             (getStorageLayoutForAddress env m (validations deployData) current))
                    (\<lambda>currentLayout.
                  if Options.unsafeSkipStorageCheck opts \<noteq> Some True then
                    call_pure
                      (EvAssertStorageUpgradeSafe currentLayout (DeployData.layout deployData))
                      (assertStorageUpgradeSafe env currentLayout (DeployData.layout deployData)
                         (fullOpts deployData))
                  else io_return ()))) (\<lambda>_.
     io_bind (fetchOrDeployGetDeployment (version deployData) (provider deployData)
                (let abi' = format (interface ImplFactory) Minimal in
                 io_bind (call_outside EvDeploy
                            (deploy env ImplFactory
                               (FullOptions.constructorArgs (fullOpts deployData))))
                   (\<lambda>deployed.
                 io_return \<lparr>Deployment.address = Deployed.address deployed,
                            Deployment.txHash = Some (Deployed.txHash deployed),
                            Deployment.deployTransaction =
                              Some (Deployed.deployTransaction deployed),
                            abi = abi', Deployment.layout = layout'\<rparr>))
                opts) (\<lambda>deployment.
     io_bind (if getTxResponse opts = Some True then
                (case Deployment.deployTransaction deployment of
                   Some tx \<Rightarrow> io_return (Some (DeployTransaction tx))
                 | None \<Rightarrow>
                    (case Deployment.txHash deployment of
                       Some h \<Rightarrow> io_bind (io_emit (EvGetTransaction h)) (\<lambda>_.
                                  io_return (Some (GetTransaction h)))
                     | None \<Rightarrow> io_return None))
              else io_return None) (\<lambda>tx.
     io_return \<lparr>impl = Deployment.address deployment, DeployedImpl.kind = Options.kind opts,
                txResponse = tx\<rparr>))))"

text \<open>\<^verbatim>\<open>deployProxyImpl\<close>, lines 62 to 79. After \<^verbatim>\<open>processProxyKind\<close> the caller's
  \<^verbatim>\<open>opts\<close> carries the kind that call assigned.\<close>

definition deployProxyImpl ::
  "'x env \<Rightarrow> HardhatRuntimeEnvironment \<Rightarrow> ContractFactory \<Rightarrow> Options \<Rightarrow> address option
     \<Rightarrow> ('x World, DeployedImpl) io" where
  "deployProxyImpl env hre ImplFactory opts proxyAddress =
     io_bind (getDeployData env hre ImplFactory opts) (\<lambda>deployData.
     io_bind (call_read (EvProcessProxyKind proxyAddress)
                (processProxyKind env (provider deployData) proxyAddress opts
                   (validations deployData) (version deployData))) (\<lambda>k.
     io_bind (case proxyAddress of
                None \<Rightarrow> io_return None
              | Some proxy \<Rightarrow>
                  io_bind (call_read (EvGetImplementationAddress proxy)
                             (getImplementationAddress env (provider deployData) proxy))
                    (\<lambda>a. io_return (Some a))) (\<lambda>currentImplAddress.
     deployImpl env hre deployData ImplFactory (opts\<lparr>Options.kind := k\<rparr>) currentImplAddress)))"

text \<open>\<^verbatim>\<open>deployBeaconImpl\<close>, lines 81 to 96.\<close>

definition deployBeaconImpl ::
  "'x env \<Rightarrow> HardhatRuntimeEnvironment \<Rightarrow> ContractFactory \<Rightarrow> Options \<Rightarrow> address option
     \<Rightarrow> ('x World, DeployedImpl) io" where
  "deployBeaconImpl env hre ImplFactory opts beaconAddress =
     io_bind (getDeployData env hre ImplFactory opts) (\<lambda>deployData.
     io_bind (case beaconAddress of
                None \<Rightarrow> io_return None
              | Some beacon \<Rightarrow>
                  io_bind (call_read (EvAssertNotProxy beacon)
                             (assertNotProxy env (provider deployData) beacon)) (\<lambda>_.
                  io_bind (call_read (EvGetImplementationAddressFromBeacon beacon)
                             (getImplementationAddressFromBeacon env (provider deployData) beacon))
                    (\<lambda>a. io_return (Some a)))) (\<lambda>currentImplAddress.
     deployImpl env hre deployData ImplFactory opts currentImplAddress))"

section \<open>Reading a run\<close>

text \<open>
  The three blocks of \<^verbatim>\<open>deployImpl\<close>, named so that a run can be followed block by
  block: the storage check of lines 109 to 115, the callback of lines 120 to 124 and the
  transaction response of lines 128 to 135.
\<close>

definition deployImpl_storageCheck ::
  "'x env \<Rightarrow> DeployData \<Rightarrow> Options \<Rightarrow> address option \<Rightarrow> ('x World, unit) io" where
  "deployImpl_storageCheck env deployData opts currentImplAddress =
     (case currentImplAddress of
        None \<Rightarrow> io_return ()
      | Some current \<Rightarrow>
          io_bind (call_read EvManifestForNetwork
                     (Manifest_forNetwork env (provider deployData))) (\<lambda>m.
          io_bind (call_read (EvGetStorageLayoutForAddress current)
                     (getStorageLayoutForAddress env m (validations deployData) current))
            (\<lambda>currentLayout.
          if Options.unsafeSkipStorageCheck opts \<noteq> Some True then
            call_pure (EvAssertStorageUpgradeSafe currentLayout (DeployData.layout deployData))
              (assertStorageUpgradeSafe env currentLayout (DeployData.layout deployData)
                 (fullOpts deployData))
          else io_return ())))"

definition deployFn ::
  "'x env \<Rightarrow> ContractFactory \<Rightarrow> DeployData \<Rightarrow> ('x World, Deployment) io" where
  "deployFn env ImplFactory deployData =
     (let abi' = format (interface ImplFactory) Minimal in
      io_bind (call_outside EvDeploy
                 (deploy env ImplFactory (FullOptions.constructorArgs (fullOpts deployData))))
        (\<lambda>deployed.
      io_return \<lparr>Deployment.address = Deployed.address deployed,
                 Deployment.txHash = Some (Deployed.txHash deployed),
                 Deployment.deployTransaction = Some (Deployed.deployTransaction deployed),
                 abi = abi', Deployment.layout = DeployData.layout deployData\<rparr>))"

definition deployImpl_txResponse :: "Options \<Rightarrow> Deployment \<Rightarrow> ('w, TxResponse option) io" where
  "deployImpl_txResponse opts deployment =
     (if getTxResponse opts = Some True then
        (case Deployment.deployTransaction deployment of
           Some tx \<Rightarrow> io_return (Some (DeployTransaction tx))
         | None \<Rightarrow>
            (case Deployment.txHash deployment of
               Some h \<Rightarrow> io_bind (io_emit (EvGetTransaction h)) (\<lambda>_.
                          io_return (Some (GetTransaction h)))
             | None \<Rightarrow> io_return None))
      else io_return None)"

definition is_old_layout_event :: "event \<Rightarrow> bool" where
  "is_old_layout_event ev =
     (case ev of EvManifestForNetwork \<Rightarrow> True | EvGetStorageLayoutForAddress _ \<Rightarrow> True
      | _ \<Rightarrow> False)"

definition is_storage_gate_event :: "event \<Rightarrow> bool" where
  "is_storage_gate_event ev = (case ev of EvAssertStorageUpgradeSafe _ _ \<Rightarrow> True | _ \<Rightarrow> False)"

definition is_gate_event :: "event \<Rightarrow> bool" where
  "is_gate_event ev =
     (case ev of EvAssertUpgradeSafe \<Rightarrow> True | EvAssertStorageUpgradeSafe _ _ \<Rightarrow> True
      | _ \<Rightarrow> False)"

text \<open>The calls of the deployment cache and of its callback.\<close>

definition is_deployment_event :: "event \<Rightarrow> bool" where
  "is_deployment_event ev =
     (case ev of EvFetchOrDeployGetDeployment _ \<Rightarrow> True | EvDeploy \<Rightarrow> True
      | EvManifestInsert _ _ \<Rightarrow> True | _ \<Rightarrow> False)"

text \<open>The steps of the orchestrator, and the step each call belongs to.\<close>

datatype step =
    ResolveDeployData
  | ClassifyTarget
  | ReadCurrentImplementation
  | FetchCurrentLayout
  | AssertUpgradeSafe
  | AssertStorageUpgradeSafe
  | FetchOrDeploy
  | AssembleResult

fun step_of :: "event \<Rightarrow> step" where
  "step_of EvReadValidations = ResolveDeployData"
| "step_of EvGetUnlinkedBytecode = ResolveDeployData"
| "step_of EvEncodeDeploy = ResolveDeployData"
| "step_of EvGetVersion = ResolveDeployData"
| "step_of EvGetStorageLayout = ResolveDeployData"
| "step_of (EvProcessProxyKind _) = ClassifyTarget"
| "step_of (EvAssertNotProxy _) = ClassifyTarget"
| "step_of (EvGetImplementationAddress _) = ReadCurrentImplementation"
| "step_of (EvGetImplementationAddressFromBeacon _) = ReadCurrentImplementation"
| "step_of EvAssertUpgradeSafe = AssertUpgradeSafe"
| "step_of EvManifestForNetwork = FetchCurrentLayout"
| "step_of (EvGetStorageLayoutForAddress _) = FetchCurrentLayout"
| "step_of (EvAssertStorageUpgradeSafe _ _) = AssertStorageUpgradeSafe"
| "step_of (EvFetchOrDeployGetDeployment _) = FetchOrDeploy"
| "step_of EvDeploy = FetchOrDeploy"
| "step_of (EvManifestInsert _ _) = FetchOrDeploy"
| "step_of (EvGetTransaction _) = AssembleResult"

definition steps_of :: "event list \<Rightarrow> step list" where
  "steps_of t = remdups_adj (map step_of t)"

text \<open>The order of the steps as section 4.6 of the specification words it.\<close>

definition spec_order :: "bool \<Rightarrow> step list" where
  "spec_order skipped =
     [ResolveDeployData, ClassifyTarget, FetchCurrentLayout, AssertUpgradeSafe]
     @ (if skipped then [] else [AssertStorageUpgradeSafe])
     @ [FetchOrDeploy, AssembleResult]"

text \<open>The order of the steps as the module makes them.\<close>

definition code_order :: "bool \<Rightarrow> step list" where
  "code_order skipped =
     [ResolveDeployData, ClassifyTarget, ReadCurrentImplementation, AssertUpgradeSafe,
      FetchCurrentLayout]
     @ (if skipped then [] else [AssertStorageUpgradeSafe])
     @ [FetchOrDeploy, AssembleResult]"

text \<open>The specification names no step for the reading of the implementation address;
  this leaves that step out of a sequence.\<close>

definition named_in_spec :: "step list \<Rightarrow> step list" where
  "named_in_spec ss = filter (\<lambda>s. s \<noteq> ReadCurrentImplementation) ss"

definition resolve_events :: "event list" where
  "resolve_events =
     [EvReadValidations, EvGetUnlinkedBytecode, EvEncodeDeploy, EvGetVersion, EvGetStorageLayout]"

text \<open>The object the callback of \<^verbatim>\<open>deployImpl\<close> returns for what \<^verbatim>\<open>deploy\<close> resolved to.\<close>

definition callback_result :: "ContractFactory \<Rightarrow> DeployData \<Rightarrow> Deployed \<Rightarrow> Deployment" where
  "callback_result F dd deployed =
     \<lparr>Deployment.address = Deployed.address deployed,
      Deployment.txHash = Some (Deployed.txHash deployed),
      Deployment.deployTransaction = Some (Deployed.deployTransaction deployed),
      abi = format (interface F) Minimal, Deployment.layout = DeployData.layout dd\<rparr>"

text \<open>The value and the calls of lines 128 to 135.\<close>

definition txResponse_value :: "Options \<Rightarrow> Deployment \<Rightarrow> TxResponse option" where
  "txResponse_value opts d =
     (if getTxResponse opts = Some True then
        (case Deployment.deployTransaction d of
           Some tx \<Rightarrow> Some (DeployTransaction tx)
         | None \<Rightarrow> map_option GetTransaction (Deployment.txHash d))
      else None)"

definition txResponse_events :: "Options \<Rightarrow> Deployment \<Rightarrow> event list" where
  "txResponse_events opts d =
     (if getTxResponse opts = Some True \<and> Deployment.deployTransaction d = None then
        (case Deployment.txHash d of Some h \<Rightarrow> [EvGetTransaction h] | None \<Rightarrow> [])
      else [])"

text \<open>A run that follows the calls \<open>t0\<close>.\<close>

definition after_calls ::
  "event list \<Rightarrow> (error + 'a) \<times> 'w \<times> event list \<Rightarrow> (error + 'a) \<times> 'w \<times> event list" where
  "after_calls t0 run = (result_of run, world_of run, t0 @ trace_of run)"

section \<open>Collaborators modelled from the specification\<close>

text \<open>
  Modelled from the spec: \<^verbatim>\<open>getStorageLayoutForAddress\<close> of \<^verbatim>\<open>@openzeppelin/upgrades-core\<close>
  is not among the sources. Section 4.2: it resolves the implementation associated with
  the address through the manifest, then delegates to the layout of that version; it fails
  with \<open>UnrecordedImplementationError\<close> when the address is not in the manifest.
\<close>

definition layoutForAddress ::
  "(ValidationDataCurrent \<Rightarrow> Version \<Rightarrow> error + StorageLayout) \<Rightarrow> Manifest
     \<Rightarrow> ValidationDataCurrent \<Rightarrow> address \<Rightarrow> 'x World \<Rightarrow> error + StorageLayout" where
  "layoutForAddress layoutForVersion m vals a w =
     (case find (\<lambda>entry. fst (fst entry) = m \<and> Deployment.address (snd entry) = a) (manifest w) of
        None \<Rightarrow> Inl UnrecordedImplementationError
      | Some entry \<Rightarrow> layoutForVersion vals (snd (fst entry)))"

text \<open>
  Modelled from the spec: \<^verbatim>\<open>processProxyKind\<close> of \<^verbatim>\<open>@openzeppelin/upgrades-core\<close> is
  not among the sources. Section 4.4: in the upgrade flow it classifies the kind of the
  proxy address by matching its bytecode (the parameter \<open>classify\<close>), cross-checks it
  against the kind requested in the options and fails with \<open>ProxyKindMismatchError\<close> when
  they disagree. With no proxy address there is nothing to classify, and \<^verbatim>\<open>opts.kind\<close>
  stays as it is.
\<close>

definition classifyProxyKind ::
  "(EthereumProvider \<Rightarrow> address \<Rightarrow> 'x World \<Rightarrow> error + ProxyKind) \<Rightarrow> EthereumProvider
     \<Rightarrow> address option \<Rightarrow> Options \<Rightarrow> ValidationDataCurrent \<Rightarrow> Version \<Rightarrow> 'x World
     \<Rightarrow> error + ProxyKind option" where
  "classifyProxyKind classify prov proxyAddress opts vals ver w =
     (case proxyAddress of
        None \<Rightarrow> Inr (Options.kind opts)
      | Some proxy \<Rightarrow>
          (case classify prov proxy w of
             Inl e \<Rightarrow> Inl e
           | Inr k \<Rightarrow>
               (case Options.kind opts of
                  None \<Rightarrow> Inr (Some k)
                | Some requested \<Rightarrow>
                    if requested = k then Inr (Some k) else Inl ProxyKindMismatchError)))"

text \<open>
  Modelled from the spec: \<^verbatim>\<open>assertNotProxy\<close> of \<^verbatim>\<open>@openzeppelin/upgrades-core\<close> is not
  among the sources. Section 4.4: in the beacon flow it asserts that the target address
  is not a proxy (the parameter \<open>isProxy\<close> says whether its bytecode matches a known proxy
  pattern) and fails with \<open>NotABeaconTargetError\<close> when it is.
\<close>

definition assertNotProxy_beacon ::
  "(EthereumProvider \<Rightarrow> address \<Rightarrow> 'x World \<Rightarrow> bool) \<Rightarrow> EthereumProvider \<Rightarrow> address
     \<Rightarrow> 'x World \<Rightarrow> error + unit" where
  "assertNotProxy_beacon isProxy prov a w =
     (if isProxy prov a w then Inl NotABeaconTargetError else Inr ())"

section \<open>A small project to run the module on\<close>

text \<open>
  Three compiled contracts: \<open>V1\<close> with one variable, \<open>V2\<close> which appends a second one, and
  \<open>Bad\<close> which has a \<^verbatim>\<open>selfdestruct\<close>. The chain state is the number of transactions
  sent. The proxy \<open>0xProxy\<close> is a transparent proxy that points at \<open>0xImplV1\<close>.
\<close>

definition item_a :: StorageItem where
  "item_a = \<lparr>label = ''a'', item_type = ''t_uint256'', slot = 0, offset = 0, contract = ''Box''\<rparr>"

definition item_b :: StorageItem where
  "item_b = \<lparr>label = ''b'', item_type = ''t_uint256'', slot = 1, offset = 0, contract = ''Box''\<rparr>"

definition example_validations :: ValidationDataCurrent where
  "example_validations =
     [(''V1'', \<lparr>cv_layout = [item_a], cv_errors = []\<rparr>),
      (''V2'', \<lparr>cv_layout = [item_a, item_b], cv_errors = []\<rparr>),
      (''Bad'', \<lparr>cv_layout = [item_b], cv_errors = [''selfdestruct'']\<rparr>)]"

definition example_getStorageLayout ::
  "ValidationDataCurrent \<Rightarrow> Version \<Rightarrow> error + StorageLayout" where
  "example_getStorageLayout vals ver =
     (case map_of vals (withMetadata ver) of
        None \<Rightarrow> Inl UnknownVersionError
      | Some cv \<Rightarrow> Inr (cv_layout cv))"

definition example_assertUpgradeSafe ::
  "ValidationDataCurrent \<Rightarrow> Version \<Rightarrow> FullOptions \<Rightarrow> error + unit" where
  "example_assertUpgradeSafe vals ver fo =
     (case map_of vals (withMetadata ver) of
        None \<Rightarrow> Inl UnknownVersionError
      | Some cv \<Rightarrow>
          (case filter (\<lambda>e. e \<notin> set (FullOptions.unsafeAllow fo)) (cv_errors cv) of
             [] \<Rightarrow> Inr ()
           | bad \<Rightarrow> Inl (UpgradeSafetyError bad)))"

definition example_assertStorageUpgradeSafe ::
  "StorageLayout \<Rightarrow> StorageLayout \<Rightarrow> FullOptions \<Rightarrow> error + unit" where
  "example_assertStorageUpgradeSafe old new fo =
     (if take (length old) new = old then Inr ()
      else Inl (StorageLayoutError (map label old)))"

definition example_withDefaults :: "Options \<Rightarrow> FullOptions" where
  "example_withDefaults opts =
     \<lparr>FullOptions.constructorArgs =
        (case Options.constructorArgs opts of None \<Rightarrow> [] | Some args \<Rightarrow> args),
      FullOptions.unsafeAllow = (case Options.unsafeAllow opts of None \<Rightarrow> [] | Some l \<Rightarrow> l),
      FullOptions.unsafeSkipStorageCheck = (Options.unsafeSkipStorageCheck opts = Some True),
      FullOptions.kind = (case Options.kind opts of None \<Rightarrow> Transparent | Some k \<Rightarrow> k)\<rparr>"

definition example_classify :: "EthereumProvider \<Rightarrow> address \<Rightarrow> nat World \<Rightarrow> error + ProxyKind" where
  "example_classify prov a w =
     (if a = ''0xProxy'' then Inr Transparent else Inl (OtherError ''not a proxy''))"

definition example_isProxy :: "EthereumProvider \<Rightarrow> address \<Rightarrow> nat World \<Rightarrow> bool" where
  "example_isProxy prov a w = (a = ''0xProxy'')"

definition example_env :: "nat env" where
  "example_env =
     \<lparr>readValidations = (\<lambda>hre w. Inr example_validations),
      getUnlinkedBytecode = (\<lambda>vals code. Inr code),
      getVersion = (\<lambda>unlinked linked args.
         Inr \<lparr>withMetadata = unlinked, withoutMetadata = linked,
              linkedWithoutMetadata = linked @ args\<rparr>),
      getStorageLayout = example_getStorageLayout,
      withDefaults = example_withDefaults,
      processProxyKind = classifyProxyKind example_classify,
      getImplementationAddress = (\<lambda>prov a w. Inr ''0xImplV1''),
      assertNotProxy = assertNotProxy_beacon example_isProxy,
      getImplementationAddressFromBeacon = (\<lambda>prov a w. Inr ''0xImplV1''),
      assertUpgradeSafe = example_assertUpgradeSafe,
      Manifest_forNetwork = (\<lambda>prov w. Inr prov),
      getStorageLayoutForAddress = layoutForAddress example_getStorageLayout,
      assertStorageUpgradeSafe = example_assertStorageUpgradeSafe,
      deploy = (\<lambda>factory args n.
         (Inr \<lparr>Deployed.address = ''0xImpl'' @ bytecode factory, Deployed.txHash = ''0xtx'',
               Deployed.deployTransaction = ''tx''\<rparr>, Suc n))\<rparr>"

definition example_hre :: HardhatRuntimeEnvironment where
  "example_hre = \<lparr>network_provider = 31337, config_paths_cache = ''cache''\<rparr>"

definition example_interface :: Interface where
  "example_interface =
     \<lparr>encodeDeploy = (\<lambda>args. Inr (concat (case args of None \<Rightarrow> [] | Some l \<Rightarrow> l))),
      format = (\<lambda>f. [''constructor()''])\<rparr>"

definition factory_V1 :: ContractFactory where
  "factory_V1 = \<lparr>bytecode = ''V1'', interface = example_interface\<rparr>"

definition factory_V2 :: ContractFactory where
  "factory_V2 = \<lparr>bytecode = ''V2'', interface = example_interface\<rparr>"

definition factory_Bad :: ContractFactory where
  "factory_Bad = \<lparr>bytecode = ''Bad'', interface = example_interface\<rparr>"

definition no_opts :: Options where
  "no_opts = \<lparr>Options.constructorArgs = None, Options.unsafeAllow = None,
              Options.unsafeSkipStorageCheck = None, Options.kind = None,
              getTxResponse = None\<rparr>"

definition version_Bad :: Version where
  "version_Bad =
     \<lparr>withMetadata = ''Bad'', withoutMetadata = ''Bad'', linkedWithoutMetadata = ''Bad''\<rparr>"

definition version_V1 :: Version where
  "version_V1 = \<lparr>withMetadata = ''V1'', withoutMetadata = ''V1'', linkedWithoutMetadata = ''V1''\<rparr>"

definition version_V2 :: Version where
  "version_V2 = \<lparr>withMetadata = ''V2'', withoutMetadata = ''V2'', linkedWithoutMetadata = ''V2''\<rparr>"

definition record_V1 :: Deployment where
  "record_V1 = \<lparr>Deployment.address = ''0xImplV1'', Deployment.txHash = Some ''0xtx'',
                Deployment.deployTransaction = None, abi = [''constructor()''],
                Deployment.layout = [item_a]\<rparr>"

text \<open>The world after \<open>V1\<close> was deployed behind the proxy.\<close>

definition world_V1 :: "nat World" where
  "world_V1 = \<lparr>manifest = [((31337, version_V1), record_V1)], outside = 1\<rparr>"

text \<open>The world before anything was deployed.\<close>

definition world_empty :: "nat World" where
  "world_empty = \<lparr>manifest = [], outside = 0\<rparr>"

definition deployData_of :: "string \<Rightarrow> Version \<Rightarrow> StorageLayout \<Rightarrow> Options \<Rightarrow> DeployData" where
  "deployData_of code ver lay opts =
     \<lparr>provider = 31337, validations = example_validations, unlinkedBytecode = code,
      encodedArgs = [], version = ver, DeployData.layout = lay,
      fullOpts = example_withDefaults opts\<rparr>"

text \<open>A factory with the bytecode of \<open>V1\<close> and another constructor ABI: its interface
  encodes the arguments with a length prefix.\<close>

definition prefixed_interface :: Interface where
  "prefixed_interface =
     \<lparr>encodeDeploy = (\<lambda>args. Inr (concat (map (\<lambda>a. ''#'' @ a) (case args of None \<Rightarrow> [] | Some l \<Rightarrow> l)))),
      format = (\<lambda>f. [''constructor(bytes)''])\<rparr>"

definition factory_V1_prefixed :: ContractFactory where
  "factory_V1_prefixed = \<lparr>bytecode = ''V1'', interface = prefixed_interface\<rparr>"

definition args_opts :: Options where
  "args_opts = no_opts\<lparr>Options.constructorArgs := Some [''12'']\<rparr>"

definition skip_opts :: Options where
  "skip_opts = no_opts\<lparr>Options.unsafeSkipStorageCheck := Some True\<rparr>"

definition uups_opts :: Options where
  "uups_opts = no_opts\<lparr>Options.kind := Some UUPS\<rparr>"

definition record_V2 :: Deployment where
  "record_V2 = \<lparr>Deployment.address = ''0xImplV2'', Deployment.txHash = Some ''0xtx'',
                Deployment.deployTransaction = None, abi = [''constructor()''],
                Deployment.layout = [item_a, item_b]\<rparr>"

text \<open>The world after the proxy was upgraded to \<open>V2\<close>.\<close>

definition world_V2 :: "nat World" where
  "world_V2 = \<lparr>manifest = [((31337, version_V1), record_V1), ((31337, version_V2), record_V2)],
               outside = 2\<rparr>"

text \<open>The calls of the upgrade of the proxy from \<open>V1\<close> to \<open>V2\<close>.\<close>

definition upgrade_V2_calls :: "event list" where
  "upgrade_V2_calls =
     resolve_events @
     [EvProcessProxyKind (Some ''0xProxy''), EvGetImplementationAddress ''0xProxy'',
      EvAssertUpgradeSafe, EvManifestForNetwork, EvGetStorageLayoutForAddress ''0xImplV1'',
      EvAssertStorageUpgradeSafe [item_a] [item_a, item_b],
      EvFetchOrDeployGetDeployment version_V2, EvDeploy,
      EvManifestInsert version_V2 record_V2]"

text \<open>The calls of the same upgrade when it is run a second time.\<close>

definition upgrade_V2_again_calls :: "event list" where
  "upgrade_V2_again_calls =
     resolve_events @
     [EvProcessProxyKind (Some ''0xProxy''), EvGetImplementationAddress ''0xProxy'',
      EvAssertUpgradeSafe, EvManifestForNetwork, EvGetStorageLayoutForAddress ''0xImplV1'',
      EvAssertStorageUpgradeSafe [item_a] [item_a, item_b],
      EvFetchOrDeployGetDeployment version_V2]"

section \<open>Laws of the computations\<close>

lemma io_bind_return [simp]: "io_bind (io_return x) f w = f x w"
  by (simp add: io_bind_def io_return_def split: prod.splits)

lemma io_bind_emit [simp]:
  "io_bind (io_emit ev) f w = (case f () w of (r, w', t) \<Rightarrow> (r, w', ev # t))"
  by (simp add: io_bind_def io_emit_def)

lemma io_bind_read [simp]: "io_bind (io_read g) f w = f (g w) w"
  by (simp add: io_bind_def io_read_def split: prod.splits)

lemma io_bind_modify [simp]: "io_bind (io_modify g) f w = f () (g w)"
  by (simp add: io_bind_def io_modify_def split: prod.splits)

lemma io_bind_call_pure [simp]:
  "io_bind (call_pure ev r) f w =
     (case r of Inl e \<Rightarrow> (Inl e, w, [ev])
      | Inr x \<Rightarrow> (case f x w of (r', w', t) \<Rightarrow> (r', w', ev # t)))"
  by (simp add: io_bind_def call_pure_def split: sum.splits)

lemma io_bind_call_read [simp]:
  "io_bind (call_read ev g) f w =
     (case g w of Inl e \<Rightarrow> (Inl e, w, [ev])
      | Inr x \<Rightarrow> (case f x w of (r', w', t) \<Rightarrow> (r', w', ev # t)))"
  by (simp add: io_bind_def call_read_def split: sum.splits)

lemma io_bind_call_outside [simp]:
  "io_bind (call_outside ev g) f w =
     (case g (outside w) of
        (Inl e, x') \<Rightarrow> (Inl e, w\<lparr>outside := x'\<rparr>, [ev])
      | (Inr x, x') \<Rightarrow>
          (case f x (w\<lparr>outside := x'\<rparr>) of (r', w', t) \<Rightarrow> (r', w', ev # t)))"
  by (simp add: io_bind_def call_outside_def split: sum.splits prod.splits)

lemma io_return_apply [simp]: "io_return x w = (Inr x, w, [])"
  by (simp add: io_return_def)

lemma call_pure_apply [simp]: "call_pure ev r w = (r, w, [ev])"
  by (simp add: call_pure_def)

lemma run_projections [simp]:
  "result_of (r, w, t) = r" "world_of (r, w, t) = w" "trace_of (r, w, t) = t"
  by (simp_all add: result_of_def world_of_def trace_of_def)

lemma after_calls_simps [simp]: "after_calls t0 (r, w, t) = (r, w, t0 @ t)"
  by (simp add: after_calls_def)

lemma after_calls_projections [simp]:
  "result_of (after_calls t0 run) = result_of run"
  "world_of (after_calls t0 run) = world_of run"
  "trace_of (after_calls t0 run) = t0 @ trace_of run"
  by (simp_all add: after_calls_def)

lemma case_run_cons: "(case run of (r, w', t) \<Rightarrow> (r, w', ev # t)) = after_calls [ev] run"
  by (cases run) simp

lemma after_calls_twice: "after_calls t0 (after_calls t1 run) = after_calls (t0 @ t1) run"
  by (cases run) simp

lemma io_bind_assoc: "io_bind (io_bind m f) g = io_bind m (\<lambda>x. io_bind (f x) g)"
  by (rule ext) (simp add: io_bind_def split: prod.splits sum.splits)

lemma io_bind_general:
  "io_bind m f w =
     (case result_of (m w) of
        Inl e \<Rightarrow> (Inl e, world_of (m w), trace_of (m w))
      | Inr x \<Rightarrow> after_calls (trace_of (m w)) (f x (world_of (m w))))"
  by (cases "m w"; cases "fst (m w)")
     (auto simp: io_bind_def after_calls_def result_of_def world_of_def trace_of_def
           split: prod.splits)

section \<open>What each function does, call by call\<close>

lemma getDeployData_world: "world_of (getDeployData env hre F opts w) = w"
  by (simp add: getDeployData_def split: sum.splits)

lemma getDeployData_Inr:
  "result_of (getDeployData env hre F opts w) = Inr dd \<Longrightarrow>
     trace_of (getDeployData env hre F opts w) = resolve_events
     \<and> provider dd = network_provider hre
     \<and> readValidations env hre w = Inr (validations dd)
     \<and> getStorageLayout env (validations dd) (version dd) = Inr (DeployData.layout dd)
     \<and> fullOpts dd = withDefaults env opts"
  by (auto simp: getDeployData_def resolve_events_def split: sum.splits)

lemma getDeployData_trace: "prefix (trace_of (getDeployData env hre F opts w)) resolve_events"
  by (simp add: getDeployData_def resolve_events_def split: sum.splits)

lemma storageCheck_None [simp]: "deployImpl_storageCheck env dd opts None w = (Inr (), w, [])"
  by (simp add: deployImpl_storageCheck_def)

lemma storageCheck_Some:
  "deployImpl_storageCheck env dd opts (Some a) w =
     (case Manifest_forNetwork env (provider dd) w of
        Inl e \<Rightarrow> (Inl e, w, [EvManifestForNetwork])
      | Inr m \<Rightarrow>
         (case getStorageLayoutForAddress env m (validations dd) a w of
            Inl e \<Rightarrow> (Inl e, w, [EvManifestForNetwork, EvGetStorageLayoutForAddress a])
          | Inr old \<Rightarrow>
              if Options.unsafeSkipStorageCheck opts \<noteq> Some True then
                (assertStorageUpgradeSafe env old (DeployData.layout dd) (fullOpts dd), w,
                 [EvManifestForNetwork, EvGetStorageLayoutForAddress a,
                  EvAssertStorageUpgradeSafe old (DeployData.layout dd)])
              else (Inr (), w, [EvManifestForNetwork, EvGetStorageLayoutForAddress a])))"
  by (simp add: deployImpl_storageCheck_def split: sum.splits)

lemma storageCheck_world: "world_of (deployImpl_storageCheck env dd opts cur w) = w"
  by (cases cur) (simp_all add: storageCheck_Some split: sum.splits)

lemma deployFn_run:
  "deployFn env F dd w =
     (case deploy env F (FullOptions.constructorArgs (fullOpts dd)) (outside w) of
        (Inl e, x') \<Rightarrow> (Inl e, w\<lparr>outside := x'\<rparr>, [EvDeploy])
      | (Inr deployed, x') \<Rightarrow>
          (Inr (callback_result F dd deployed), w\<lparr>outside := x'\<rparr>, [EvDeploy]))"
  by (simp add: deployFn_def callback_result_def Let_def io_bind_def call_outside_def
           split: prod.splits sum.splits)

lemma fetchOrDeploy_run:
  "fetchOrDeployGetDeployment v p (deployFn env F dd) opts w =
     (case map_of (manifest w) (p, v) of
        Some stored \<Rightarrow> (Inr stored, w, [EvFetchOrDeployGetDeployment v])
      | None \<Rightarrow>
         (case deploy env F (FullOptions.constructorArgs (fullOpts dd)) (outside w) of
            (Inl e, x') \<Rightarrow>
              (Inl e, w\<lparr>outside := x'\<rparr>, [EvFetchOrDeployGetDeployment v, EvDeploy])
          | (Inr deployed, x') \<Rightarrow>
              (Inr (callback_result F dd deployed),
               w\<lparr>outside := x',
                 manifest := manifest w @ [((p, v), toRecord (callback_result F dd deployed))]\<rparr>,
               [EvFetchOrDeployGetDeployment v, EvDeploy,
                EvManifestInsert v (toRecord (callback_result F dd deployed))])))"
  by (cases "map_of (manifest w) (p, v)";
      cases "deploy env F (FullOptions.constructorArgs (fullOpts dd)) (outside w)";
      cases "fst (deploy env F (FullOptions.constructorArgs (fullOpts dd)) (outside w))")
     (simp_all add: fetchOrDeployGetDeployment_def deployFn_run io_bind_def io_emit_def
        io_modify_def io_read_def io_return_def)

lemma deployImpl_blocks:
  "deployImpl env hre deployData ImplFactory opts currentImplAddress =
     io_bind (call_pure EvAssertUpgradeSafe
                (assertUpgradeSafe env (validations deployData) (version deployData)
                   (fullOpts deployData))) (\<lambda>_.
     io_bind (deployImpl_storageCheck env deployData opts currentImplAddress) (\<lambda>_.
     io_bind (fetchOrDeployGetDeployment (version deployData) (provider deployData)
                (deployFn env ImplFactory deployData) opts) (\<lambda>deployment.
     io_bind (deployImpl_txResponse opts deployment) (\<lambda>tx.
     io_return \<lparr>impl = Deployment.address deployment, DeployedImpl.kind = Options.kind opts,
                txResponse = tx\<rparr>))))"
  unfolding deployImpl_def deployImpl_storageCheck_def deployFn_def deployImpl_txResponse_def
    Let_def
  by (rule refl)

lemma txResponse_closed:
  "deployImpl_txResponse opts d w = (Inr (txResponse_value opts d), w, txResponse_events opts d)"
  by (simp add: deployImpl_txResponse_def txResponse_value_def txResponse_events_def
           split: option.splits)

lemma deployImpl_run:
  "deployImpl env hre dd F opts cur w =
     (case assertUpgradeSafe env (validations dd) (version dd) (fullOpts dd) of
        Inl e \<Rightarrow> (Inl e, w, [EvAssertUpgradeSafe])
      | Inr _ \<Rightarrow>
         (case result_of (deployImpl_storageCheck env dd opts cur w) of
            Inl e \<Rightarrow>
              (Inl e, w,
               EvAssertUpgradeSafe # trace_of (deployImpl_storageCheck env dd opts cur w))
          | Inr _ \<Rightarrow>
             (case fetchOrDeployGetDeployment (version dd) (provider dd) (deployFn env F dd)
                     opts w of
                (Inl e, w2, t2) \<Rightarrow>
                  (Inl e, w2,
                   EvAssertUpgradeSafe # trace_of (deployImpl_storageCheck env dd opts cur w)
                     @ t2)
              | (Inr d, w2, t2) \<Rightarrow>
                  (Inr \<lparr>impl = Deployment.address d, DeployedImpl.kind = Options.kind opts,
                        txResponse = txResponse_value opts d\<rparr>, w2,
                   EvAssertUpgradeSafe # trace_of (deployImpl_storageCheck env dd opts cur w)
                     @ t2 @ txResponse_events opts d))))"
proof -
  obtain r1 t1 where sc: "deployImpl_storageCheck env dd opts cur w = (r1, w, t1)"
    using storageCheck_world [of env dd opts cur w]
    by (cases "deployImpl_storageCheck env dd opts cur w") simp
  show ?thesis
    by (simp add: deployImpl_blocks sc io_bind_def txResponse_closed
          split: sum.splits prod.splits)
qed

lemma deployProxyImpl_run:
  "deployProxyImpl env hre F opts pa w =
     (case result_of (getDeployData env hre F opts w) of
        Inl e \<Rightarrow> (Inl e, w, trace_of (getDeployData env hre F opts w))
      | Inr dd \<Rightarrow>
         (case processProxyKind env (provider dd) pa opts (validations dd) (version dd) w of
            Inl e \<Rightarrow> (Inl e, w, resolve_events @ [EvProcessProxyKind pa])
          | Inr k \<Rightarrow>
             (case pa of
                None \<Rightarrow>
                  after_calls (resolve_events @ [EvProcessProxyKind None])
                    (deployImpl env hre dd F (opts\<lparr>Options.kind := k\<rparr>) None w)
              | Some p \<Rightarrow>
                 (case getImplementationAddress env (provider dd) p w of
                    Inl e \<Rightarrow>
                      (Inl e, w,
                       resolve_events
                         @ [EvProcessProxyKind (Some p), EvGetImplementationAddress p])
                  | Inr a \<Rightarrow>
                      after_calls
                        (resolve_events
                           @ [EvProcessProxyKind (Some p), EvGetImplementationAddress p])
                        (deployImpl env hre dd F (opts\<lparr>Options.kind := k\<rparr>) (Some a) w)))))"
  unfolding deployProxyImpl_def
  apply (subst io_bind_general)
  apply (simp add: getDeployData_world io_bind_assoc case_run_cons after_calls_twice
           split: sum.splits option.splits)
  apply (auto dest!: getDeployData_Inr simp: resolve_events_def)
  done

lemma deployBeaconImpl_run:
  "deployBeaconImpl env hre F opts ba w =
     (case result_of (getDeployData env hre F opts w) of
        Inl e \<Rightarrow> (Inl e, w, trace_of (getDeployData env hre F opts w))
      | Inr dd \<Rightarrow>
         (case ba of
            None \<Rightarrow> after_calls resolve_events (deployImpl env hre dd F opts None w)
          | Some b \<Rightarrow>
             (case assertNotProxy env (provider dd) b w of
                Inl e \<Rightarrow> (Inl e, w, resolve_events @ [EvAssertNotProxy b])
              | Inr _ \<Rightarrow>
                 (case getImplementationAddressFromBeacon env (provider dd) b w of
                    Inl e \<Rightarrow>
                      (Inl e, w,
                       resolve_events
                         @ [EvAssertNotProxy b, EvGetImplementationAddressFromBeacon b])
                  | Inr a \<Rightarrow>
                      after_calls
                        (resolve_events
                           @ [EvAssertNotProxy b, EvGetImplementationAddressFromBeacon b])
                        (deployImpl env hre dd F opts (Some a) w)))))"
  unfolding deployBeaconImpl_def
  apply (subst io_bind_general)
  apply (simp add: getDeployData_world io_bind_assoc case_run_cons after_calls_twice
           split: sum.splits option.splits)
  apply (auto dest!: getDeployData_Inr simp: resolve_events_def)
  done

subsection \<open>The ways a run can go\<close>

lemma getDeployData_events:
  "ev \<in> set (trace_of (getDeployData env hre F opts w)) \<Longrightarrow> ev \<in> set resolve_events"
  using getDeployData_trace [of env hre F opts w] set_mono_prefix by blast

lemma after_calls_eq:
  "(after_calls t0 x = (r, w', t)) = (result_of x = r \<and> world_of x = w' \<and> t0 @ trace_of x = t)"
  by (simp add: after_calls_def)

lemma run_triple: "(x = (r, w, t)) = (result_of x = r \<and> world_of x = w \<and> trace_of x = t)"
  by (cases x) auto

lemma storageCheck_cases:
  assumes "deployImpl_storageCheck env dd opts cur w = (r, w', t)"
  obtains (fresh) "cur = None" "r = Inr ()" "w' = w" "t = []"
  | (no_manifest) a e where "cur = Some a" "Manifest_forNetwork env (provider dd) w = Inl e"
      "r = Inl e" "w' = w" "t = [EvManifestForNetwork]"
  | (no_layout) a m e where "cur = Some a" "Manifest_forNetwork env (provider dd) w = Inr m"
      "getStorageLayoutForAddress env m (validations dd) a w = Inl e"
      "r = Inl e" "w' = w" "t = [EvManifestForNetwork, EvGetStorageLayoutForAddress a]"
  | (skipped) a m old where "cur = Some a" "Manifest_forNetwork env (provider dd) w = Inr m"
      "getStorageLayoutForAddress env m (validations dd) a w = Inr old"
      "Options.unsafeSkipStorageCheck opts = Some True"
      "r = Inr ()" "w' = w" "t = [EvManifestForNetwork, EvGetStorageLayoutForAddress a]"
  | (checked) a m old where "cur = Some a" "Manifest_forNetwork env (provider dd) w = Inr m"
      "getStorageLayoutForAddress env m (validations dd) a w = Inr old"
      "Options.unsafeSkipStorageCheck opts \<noteq> Some True"
      "r = assertStorageUpgradeSafe env old (DeployData.layout dd) (fullOpts dd)" "w' = w"
      "t = [EvManifestForNetwork, EvGetStorageLayoutForAddress a,
            EvAssertStorageUpgradeSafe old (DeployData.layout dd)]"
proof (cases cur)
  case None
  with assms have "r = Inr ()" "w' = w" "t = []" by auto
  with None show ?thesis by (rule fresh)
next
  case (Some a)
  show ?thesis
  proof (cases "Manifest_forNetwork env (provider dd) w")
    case (Inl e)
    with assms Some have "r = Inl e" "w' = w" "t = [EvManifestForNetwork]"
      by (auto simp: storageCheck_Some)
    with Some Inl show ?thesis by (rule no_manifest)
  next
    case m: (Inr m)
    show ?thesis
    proof (cases "getStorageLayoutForAddress env m (validations dd) a w")
      case (Inl e)
      with assms Some m have "r = Inl e" "w' = w"
        "t = [EvManifestForNetwork, EvGetStorageLayoutForAddress a]"
        by (auto simp: storageCheck_Some)
      with Some m Inl show ?thesis by (rule no_layout)
    next
      case (Inr old)
      show ?thesis
      proof (cases "Options.unsafeSkipStorageCheck opts = Some True")
        case True
        with assms Some m Inr have "r = Inr ()" "w' = w"
          "t = [EvManifestForNetwork, EvGetStorageLayoutForAddress a]"
          by (auto simp: storageCheck_Some)
        with Some m Inr True show ?thesis by (rule skipped)
      next
        case False
        with assms Some m Inr
        have "r = assertStorageUpgradeSafe env old (DeployData.layout dd) (fullOpts dd)"
          "w' = w"
          "t = [EvManifestForNetwork, EvGetStorageLayoutForAddress a,
                EvAssertStorageUpgradeSafe old (DeployData.layout dd)]"
          by (auto simp: storageCheck_Some)
        with Some m Inr False show ?thesis by (rule checked)
      qed
    qed
  qed
qed

lemma fetchOrDeploy_cases:
  assumes "fetchOrDeployGetDeployment v p (deployFn env F dd) opts w = (r, w', t)"
  obtains (hit) stored where "map_of (manifest w) (p, v) = Some stored" "r = Inr stored"
      "w' = w" "t = [EvFetchOrDeployGetDeployment v]"
  | (deploy_failed) e x' where "map_of (manifest w) (p, v) = None"
      "deploy env F (FullOptions.constructorArgs (fullOpts dd)) (outside w) = (Inl e, x')"
      "r = Inl e" "w' = w\<lparr>outside := x'\<rparr>" "t = [EvFetchOrDeployGetDeployment v, EvDeploy]"
  | (deployed) deployed x' where "map_of (manifest w) (p, v) = None"
      "deploy env F (FullOptions.constructorArgs (fullOpts dd)) (outside w) = (Inr deployed, x')"
      "r = Inr (callback_result F dd deployed)"
      "w' = w\<lparr>outside := x',
               manifest := manifest w @ [((p, v), toRecord (callback_result F dd deployed))]\<rparr>"
      "t = [EvFetchOrDeployGetDeployment v, EvDeploy,
            EvManifestInsert v (toRecord (callback_result F dd deployed))]"
  using assms
  by (auto simp: fetchOrDeploy_run split: option.splits prod.splits sum.splits)

lemma deployImpl_cases:
  assumes "deployImpl env hre dd F opts cur w = (r, w', t)"
  obtains (unsafe) e where
      "assertUpgradeSafe env (validations dd) (version dd) (fullOpts dd) = Inl e"
      "r = Inl e" "w' = w" "t = [EvAssertUpgradeSafe]"
  | (storage_failed) e t1 where
      "assertUpgradeSafe env (validations dd) (version dd) (fullOpts dd) = Inr ()"
      "deployImpl_storageCheck env dd opts cur w = (Inl e, w, t1)"
      "r = Inl e" "w' = w" "t = EvAssertUpgradeSafe # t1"
  | (cache_failed) e t1 t2 where
      "assertUpgradeSafe env (validations dd) (version dd) (fullOpts dd) = Inr ()"
      "deployImpl_storageCheck env dd opts cur w = (Inr (), w, t1)"
      "fetchOrDeployGetDeployment (version dd) (provider dd) (deployFn env F dd) opts w
         = (Inl e, w', t2)"
      "r = Inl e" "t = EvAssertUpgradeSafe # t1 @ t2"
  | (completed) d t1 t2 where
      "assertUpgradeSafe env (validations dd) (version dd) (fullOpts dd) = Inr ()"
      "deployImpl_storageCheck env dd opts cur w = (Inr (), w, t1)"
      "fetchOrDeployGetDeployment (version dd) (provider dd) (deployFn env F dd) opts w
         = (Inr d, w', t2)"
      "r = Inr \<lparr>impl = Deployment.address d, DeployedImpl.kind = Options.kind opts,
                 txResponse = txResponse_value opts d\<rparr>"
      "t = EvAssertUpgradeSafe # t1 @ t2 @ txResponse_events opts d"
proof -
  obtain r1 t1 where sc: "deployImpl_storageCheck env dd opts cur w = (r1, w, t1)"
    using storageCheck_world [of env dd opts cur w]
    by (cases "deployImpl_storageCheck env dd opts cur w") simp
  obtain r2 w2 t2 where fd:
    "fetchOrDeployGetDeployment (version dd) (provider dd) (deployFn env F dd) opts w
       = (r2, w2, t2)"
    by (cases "fetchOrDeployGetDeployment (version dd) (provider dd) (deployFn env F dd) opts w")
  show ?thesis
    using assms that
    by (cases r1; cases r2) (simp_all add: deployImpl_run sc fd split: sum.splits)
qed

lemma deployProxyImpl_cases:
  assumes "deployProxyImpl env hre F opts pa w = (r, w', t)"
  obtains (resolve_failed) e where
      "result_of (getDeployData env hre F opts w) = Inl e" "r = Inl e" "w' = w"
      "t = trace_of (getDeployData env hre F opts w)"
  | (kind_failed) dd e where
      "result_of (getDeployData env hre F opts w) = Inr dd"
      "processProxyKind env (provider dd) pa opts (validations dd) (version dd) w = Inl e"
      "r = Inl e" "w' = w" "t = resolve_events @ [EvProcessProxyKind pa]"
  | (read_failed) dd k p e where
      "result_of (getDeployData env hre F opts w) = Inr dd"
      "processProxyKind env (provider dd) pa opts (validations dd) (version dd) w = Inr k"
      "pa = Some p" "getImplementationAddress env (provider dd) p w = Inl e"
      "r = Inl e" "w' = w"
      "t = resolve_events @ [EvProcessProxyKind pa, EvGetImplementationAddress p]"
  | (fresh) dd k t1 where
      "result_of (getDeployData env hre F opts w) = Inr dd"
      "processProxyKind env (provider dd) pa opts (validations dd) (version dd) w = Inr k"
      "pa = None"
      "deployImpl env hre dd F (opts\<lparr>Options.kind := k\<rparr>) None w = (r, w', t1)"
      "t = resolve_events @ [EvProcessProxyKind pa] @ t1"
  | (upgrade) dd k p a t1 where
      "result_of (getDeployData env hre F opts w) = Inr dd"
      "processProxyKind env (provider dd) pa opts (validations dd) (version dd) w = Inr k"
      "pa = Some p" "getImplementationAddress env (provider dd) p w = Inr a"
      "deployImpl env hre dd F (opts\<lparr>Options.kind := k\<rparr>) (Some a) w = (r, w', t1)"
      "t = resolve_events @ [EvProcessProxyKind pa, EvGetImplementationAddress p] @ t1"
proof (cases "result_of (getDeployData env hre F opts w)")
  case (Inl e)
  with assms have "r = Inl e" "w' = w" "t = trace_of (getDeployData env hre F opts w)"
    by (auto simp: deployProxyImpl_run)
  with Inl show ?thesis by (rule resolve_failed)
next
  case dd: (Inr dd)
  show ?thesis
  proof (cases "processProxyKind env (provider dd) pa opts (validations dd) (version dd) w")
    case (Inl e)
    with assms dd have "r = Inl e" "w' = w" "t = resolve_events @ [EvProcessProxyKind pa]"
      by (auto simp: deployProxyImpl_run)
    with dd Inl show ?thesis by (rule kind_failed)
  next
    case k: (Inr k)
    show ?thesis
    proof (cases pa)
      case None
      with assms dd k
      have "deployImpl env hre dd F (opts\<lparr>Options.kind := k\<rparr>) None w
              = (r, w', trace_of (deployImpl env hre dd F (opts\<lparr>Options.kind := k\<rparr>) None w))"
        "t = resolve_events @ [EvProcessProxyKind pa]
               @ trace_of (deployImpl env hre dd F (opts\<lparr>Options.kind := k\<rparr>) None w)"
        by (auto simp: deployProxyImpl_run after_calls_eq run_triple)
      with dd k None show ?thesis by (rule fresh)
    next
      case (Some p)
      show ?thesis
      proof (cases "getImplementationAddress env (provider dd) p w")
        case (Inl e)
        with assms dd k Some have "r = Inl e" "w' = w"
          "t = resolve_events @ [EvProcessProxyKind pa, EvGetImplementationAddress p]"
          by (auto simp: deployProxyImpl_run)
        with dd k Some Inl show ?thesis by (rule read_failed)
      next
        case (Inr a)
        with assms dd k Some
        have "deployImpl env hre dd F (opts\<lparr>Options.kind := k\<rparr>) (Some a) w
                = (r, w', trace_of (deployImpl env hre dd F (opts\<lparr>Options.kind := k\<rparr>) (Some a) w))"
          "t = resolve_events @ [EvProcessProxyKind pa, EvGetImplementationAddress p]
                 @ trace_of (deployImpl env hre dd F (opts\<lparr>Options.kind := k\<rparr>) (Some a) w)"
          by (auto simp: deployProxyImpl_run after_calls_eq run_triple)
        with dd k Some Inr show ?thesis by (rule upgrade)
      qed
    qed
  qed
qed

lemma deployBeaconImpl_cases:
  assumes "deployBeaconImpl env hre F opts ba w = (r, w', t)"
  obtains (resolve_failed) e where
      "result_of (getDeployData env hre F opts w) = Inl e" "r = Inl e" "w' = w"
      "t = trace_of (getDeployData env hre F opts w)"
  | (is_proxy) dd b e where
      "result_of (getDeployData env hre F opts w) = Inr dd"
      "ba = Some b" "assertNotProxy env (provider dd) b w = Inl e"
      "r = Inl e" "w' = w" "t = resolve_events @ [EvAssertNotProxy b]"
  | (read_failed) dd b e where
      "result_of (getDeployData env hre F opts w) = Inr dd"
      "ba = Some b" "assertNotProxy env (provider dd) b w = Inr ()"
      "getImplementationAddressFromBeacon env (provider dd) b w = Inl e"
      "r = Inl e" "w' = w"
      "t = resolve_events @ [EvAssertNotProxy b, EvGetImplementationAddressFromBeacon b]"
  | (fresh) dd t1 where
      "result_of (getDeployData env hre F opts w) = Inr dd"
      "ba = None"
      "deployImpl env hre dd F opts None w = (r, w', t1)"
      "t = resolve_events @ t1"
  | (upgrade) dd b a t1 where
      "result_of (getDeployData env hre F opts w) = Inr dd"
      "ba = Some b" "assertNotProxy env (provider dd) b w = Inr ()"
      "getImplementationAddressFromBeacon env (provider dd) b w = Inr a"
      "deployImpl env hre dd F opts (Some a) w = (r, w', t1)"
      "t = resolve_events @ [EvAssertNotProxy b, EvGetImplementationAddressFromBeacon b] @ t1"
proof (cases "result_of (getDeployData env hre F opts w)")
  case (Inl e)
  with assms have "r = Inl e" "w' = w" "t = trace_of (getDeployData env hre F opts w)"
    by (auto simp: deployBeaconImpl_run)
  with Inl show ?thesis by (rule resolve_failed)
next
  case dd: (Inr dd)
  show ?thesis
  proof (cases ba)
    case None
    with assms dd
    have "deployImpl env hre dd F opts None w
            = (r, w', trace_of (deployImpl env hre dd F opts None w))"
      "t = resolve_events @ trace_of (deployImpl env hre dd F opts None w)"
      by (auto simp: deployBeaconImpl_run after_calls_eq run_triple)
    with dd None show ?thesis by (rule fresh)
  next
    case (Some b)
    show ?thesis
    proof (cases "assertNotProxy env (provider dd) b w")
      case (Inl e)
      with assms dd Some have "r = Inl e" "w' = w" "t = resolve_events @ [EvAssertNotProxy b]"
        by (auto simp: deployBeaconImpl_run)
      with dd Some Inl show ?thesis by (rule is_proxy)
    next
      case np: (Inr u)
      then have np': "assertNotProxy env (provider dd) b w = Inr ()" by simp
      show ?thesis
      proof (cases "getImplementationAddressFromBeacon env (provider dd) b w")
        case (Inl e)
        with assms dd Some np' have "r = Inl e" "w' = w"
          "t = resolve_events @ [EvAssertNotProxy b, EvGetImplementationAddressFromBeacon b]"
          by (auto simp: deployBeaconImpl_run)
        with dd Some np' Inl show ?thesis by (rule read_failed)
      next
        case (Inr a)
        with assms dd Some np'
        have "deployImpl env hre dd F opts (Some a) w
                = (r, w', trace_of (deployImpl env hre dd F opts (Some a) w))"
          "t = resolve_events @ [EvAssertNotProxy b, EvGetImplementationAddressFromBeacon b]
                 @ trace_of (deployImpl env hre dd F opts (Some a) w)"
          by (auto simp: deployBeaconImpl_run after_calls_eq run_triple)
        with dd Some np' Inr show ?thesis by (rule upgrade)
      qed
    qed
  qed
qed

lemma resolve_events_kinds:
  "ev \<in> set resolve_events \<Longrightarrow>
     \<not> is_old_layout_event ev \<and> \<not> is_storage_gate_event ev \<and> \<not> is_gate_event ev
     \<and> \<not> is_deployment_event ev \<and> step_of ev = ResolveDeployData"
  by (auto simp: resolve_events_def is_old_layout_event_def is_storage_gate_event_def
        is_gate_event_def is_deployment_event_def)

lemma map_of_snoc_miss: "map_of xs k = None \<Longrightarrow> map_of (xs @ [(k, x)]) k = Some x"
  by (simp add: map_add_def)

lemmas run_splits = sum.splits prod.splits option.splits if_splits

subsection \<open>What \<^verbatim>\<open>deployImpl\<close> calls\<close>





lemma deployImpl_storage_gate_call:
  assumes "deployImpl env hre dd F opts (Some current) w = (r, w', t)"
  shows "(EvAssertStorageUpgradeSafe old new \<in> set t \<longrightarrow>
           (\<exists>m. Manifest_forNetwork env (provider dd) w = Inr m
              \<and> getStorageLayoutForAddress env m (validations dd) current w = Inr old)
           \<and> new = DeployData.layout dd
           \<and> Options.unsafeSkipStorageCheck opts \<noteq> Some True)
       \<and> ((\<exists>x. r = Inr x) \<and> Options.unsafeSkipStorageCheck opts \<noteq> Some True \<longrightarrow>
            (\<exists>old. EvAssertStorageUpgradeSafe old (DeployData.layout dd) \<in> set t))"
  using assms
  by (auto simp: deployImpl_run storageCheck_Some fetchOrDeploy_run txResponse_events_def
        split: run_splits)


subsection \<open>A second run after a first\<close>

lemma find_append_found:
  "find P xs = Some x \<Longrightarrow> find P (xs @ ys) = Some x"
  by (induction xs) (auto split: if_splits)

lemma layoutForAddress_grows:
  assumes "layoutForAddress lfv m vals a w = Inr old"
    and "manifest w1 = manifest w @ extra"
  shows "layoutForAddress lfv m vals a w1 = Inr old"
  using assms
  by (auto simp: layoutForAddress_def find_append_found split: option.splits)

lemma txResponse_events_cases:
  "txResponse_events opts d = [] \<or> (\<exists>h. txResponse_events opts d = [EvGetTransaction h])"
  by (cases "getTxResponse opts = Some True \<and> Deployment.deployTransaction d = None";
      cases "Deployment.txHash d")
     (simp_all add: txResponse_events_def)

lemma txResponse_events_kind:
  "ev \<in> set (txResponse_events opts d) \<Longrightarrow> \<exists>h. ev = EvGetTransaction h"
  using txResponse_events_cases [of opts d] by auto

lemma txResponse_events_no_deploy: "count_list (txResponse_events opts d) EvDeploy = 0"
proof -
  have "EvDeploy \<notin> set (txResponse_events opts d)"
  proof
    assume "EvDeploy \<in> set (txResponse_events opts d)"
    then obtain h where "EvDeploy = EvGetTransaction h"
      using txResponse_events_kind by blast
    then show False by simp
  qed
  then show ?thesis by simp
qed

lemma storageCheck_again:
  assumes spec: "getStorageLayoutForAddress env = layoutForAddress (getStorageLayout env)"
    and first: "deployImpl_storageCheck env dd opts cur w = (Inr (), w, t)"
    and grows: "manifest w1 = manifest w @ extra"
    and net: "Manifest_forNetwork env (provider dd) w1 = Manifest_forNetwork env (provider dd) w"
  shows "deployImpl_storageCheck env dd opts cur w1 = (Inr (), w1, t)"
  using first
proof (cases rule: storageCheck_cases)
  case fresh
  then show ?thesis by simp
next
  case (skipped a m old)
  from skipped(3) spec have "layoutForAddress (getStorageLayout env) m (validations dd) a w = Inr old"
    by simp
  from layoutForAddress_grows [OF this grows] spec
  have "getStorageLayoutForAddress env m (validations dd) a w1 = Inr old" by simp
  with skipped net show ?thesis by (simp add: storageCheck_Some)
next
  case (checked a m old)
  from checked(3) spec have "layoutForAddress (getStorageLayout env) m (validations dd) a w = Inr old"
    by simp
  from layoutForAddress_grows [OF this grows] spec
  have "getStorageLayoutForAddress env m (validations dd) a w1 = Inr old" by simp
  with checked net show ?thesis by (simp add: storageCheck_Some)
qed simp_all

lemma deployImpl_again:
  assumes spec: "getStorageLayoutForAddress env = layoutForAddress (getStorageLayout env)"
    and first: "deployImpl env hre dd F opts cur w = (Inr r1, w1, t1)"
    and net: "Manifest_forNetwork env (provider dd) w1 = Manifest_forNetwork env (provider dd) w"
  shows "\<exists>d t2.
           deployImpl env hre dd F opts cur w1
             = (Inr \<lparr>impl = Deployment.address d, DeployedImpl.kind = Options.kind opts,
                     txResponse = txResponse_value opts d\<rparr>, w1, t2)
         \<and> map_of (manifest w1) (provider dd, version dd) = Some d
         \<and> impl r1 = Deployment.address d
         \<and> DeployedImpl.kind r1 = Options.kind opts
         \<and> EvFetchOrDeployGetDeployment (version dd) \<in> set t2
         \<and> count_list t2 EvDeploy = 0
         \<and> count_list t1 EvDeploy
             = (case map_of (manifest w) (provider dd, version dd) of None \<Rightarrow> 1 | Some _ \<Rightarrow> 0)"
  using first
proof (cases rule: deployImpl_cases)
  case (completed d t1' t2')
  note safe = completed(1) and sc = completed(2) and fd = completed(3)
  have sc_events: "count_list t1' EvDeploy = 0"
    using sc by (cases rule: storageCheck_cases) simp_all
  note tx_events = txResponse_events_no_deploy
  from fd show ?thesis
  proof (cases rule: fetchOrDeploy_cases)
    case (hit stored)
    then have same: "w1 = w" and d: "d = stored" by simp_all
    let ?t2 = "EvAssertUpgradeSafe # t1' @ [EvFetchOrDeployGetDeployment (version dd)]
                 @ txResponse_events opts stored"
    have again: "deployImpl env hre dd F opts cur w1
            = (Inr \<lparr>impl = Deployment.address stored, DeployedImpl.kind = Options.kind opts,
                    txResponse = txResponse_value opts stored\<rparr>, w1, ?t2)"
      using safe sc hit(1) unfolding same
      by (simp add: deployImpl_run fetchOrDeploy_run)
    have "map_of (manifest w1) (provider dd, version dd) = Some stored"
      using hit(1) same by simp
    moreover have "impl r1 = Deployment.address stored"
      "DeployedImpl.kind r1 = Options.kind opts"
      using completed(4) d by simp_all
    moreover have "EvFetchOrDeployGetDeployment (version dd) \<in> set ?t2" by simp
    moreover have "count_list ?t2 EvDeploy = 0"
      using sc_events tx_events by simp
    moreover have "count_list t1 EvDeploy
        = (case map_of (manifest w) (provider dd, version dd) of None \<Rightarrow> 1 | Some _ \<Rightarrow> 0)"
      using completed(5) hit(1,4) sc_events tx_events by simp
    ultimately show ?thesis using again by blast
  next
    case (deployed dep x')
    let ?rec = "toRecord (callback_result F dd dep)"
    let ?t2 = "EvAssertUpgradeSafe # t1' @ [EvFetchOrDeployGetDeployment (version dd)]
                 @ txResponse_events opts ?rec"
    have grows: "manifest w1 = manifest w @ [((provider dd, version dd), ?rec)]"
      using deployed(4) by simp
    have found: "map_of (manifest w1) (provider dd, version dd) = Some ?rec"
      unfolding grows using deployed(1) by (rule map_of_snoc_miss)
    have sc1: "deployImpl_storageCheck env dd opts cur w1 = (Inr (), w1, t1')"
      using spec sc grows net by (rule storageCheck_again)
    have again: "deployImpl env hre dd F opts cur w1
            = (Inr \<lparr>impl = Deployment.address ?rec, DeployedImpl.kind = Options.kind opts,
                    txResponse = txResponse_value opts ?rec\<rparr>, w1, ?t2)"
      using safe sc1 found by (simp add: deployImpl_run fetchOrDeploy_run)
    have "impl r1 = Deployment.address ?rec" "DeployedImpl.kind r1 = Options.kind opts"
      using completed(4) deployed(3) by (simp_all add: toRecord_def)
    moreover have "EvFetchOrDeployGetDeployment (version dd) \<in> set ?t2" by simp
    moreover have "count_list ?t2 EvDeploy = 0"
      using sc_events tx_events by simp
    moreover have "count_list t1 EvDeploy
        = (case map_of (manifest w) (provider dd, version dd) of None \<Rightarrow> 1 | Some _ \<Rightarrow> 0)"
      using completed(5) deployed(1,5) sc_events tx_events by simp
    ultimately show ?thesis using again found by blast
  qed simp
qed simp_all

lemma getDeployData_reads_validations_only:
  assumes "readValidations env hre w1 = readValidations env hre w"
  shows "result_of (getDeployData env hre F opts w1) = result_of (getDeployData env hre F opts w)"
  using assms by (simp add: getDeployData_def split: sum.splits)

lemma resolve_events_no_deploy: "count_list resolve_events EvDeploy = 0"
  by (simp add: resolve_events_def)

subsection \<open>The steps of a run\<close>

lemma steps_of_resolve_prefix:
  assumes "prefix t resolve_events"
  shows "steps_of t = [] \<or> steps_of t = [ResolveDeployData]"
proof -
  from assms have "t \<in> set (prefixes resolve_events)" by (simp add: in_set_prefixes)
  then show ?thesis by (auto simp: resolve_events_def steps_of_def)
qed

lemma deployImpl_upgrade_steps:
  assumes run: "deployImpl env hre dd F opts (Some a) w = (r, w', t1)"
    and pre: "map step_of pre = [ResolveDeployData, ResolveDeployData, ResolveDeployData,
                ResolveDeployData, ResolveDeployData, ClassifyTarget, ReadCurrentImplementation]"
  shows "prefix (steps_of (pre @ t1)) (code_order (Options.unsafeSkipStorageCheck opts = Some True))
       \<and> ((\<exists>x. r = Inr x) \<longrightarrow>
            prefix (butlast (code_order (Options.unsafeSkipStorageCheck opts = Some True)))
              (steps_of (pre @ t1)))"
  using run
  by (auto simp: steps_of_def pre code_order_def deployImpl_run storageCheck_Some
        fetchOrDeploy_run txResponse_events_def
        split: run_splits)

section \<open>Running the example project\<close>

lemma example_env_sel:
  "readValidations example_env = (\<lambda>hre w. Inr example_validations)"
  "getUnlinkedBytecode example_env = (\<lambda>vals code. Inr code)"
  "getVersion example_env = (\<lambda>unlinked linked args.
         Inr \<lparr>withMetadata = unlinked, withoutMetadata = linked,
              linkedWithoutMetadata = linked @ args\<rparr>)"
  "getStorageLayout example_env = example_getStorageLayout"
  "withDefaults example_env = example_withDefaults"
  "processProxyKind example_env = classifyProxyKind example_classify"
  "getImplementationAddress example_env = (\<lambda>prov a w. Inr ''0xImplV1'')"
  "assertNotProxy example_env = assertNotProxy_beacon example_isProxy"
  "getImplementationAddressFromBeacon example_env = (\<lambda>prov a w. Inr ''0xImplV1'')"
  "assertUpgradeSafe example_env = example_assertUpgradeSafe"
  "Manifest_forNetwork example_env = (\<lambda>prov w. Inr prov)"
  "getStorageLayoutForAddress example_env = layoutForAddress example_getStorageLayout"
  "assertStorageUpgradeSafe example_env = example_assertStorageUpgradeSafe"
  "deploy example_env = (\<lambda>factory args n.
         (Inr \<lparr>Deployed.address = ''0xImpl'' @ bytecode factory, Deployed.txHash = ''0xtx'',
               Deployed.deployTransaction = ''tx''\<rparr>, Suc n))"
  by (simp_all add: example_env_def)

lemmas example_defs = example_env_sel example_hre_def example_validations_def
  example_getStorageLayout_def example_assertUpgradeSafe_def
  example_assertStorageUpgradeSafe_def example_withDefaults_def example_classify_def
  example_isProxy_def example_interface_def factory_V1_def factory_V2_def factory_Bad_def
  no_opts_def version_V1_def version_V2_def version_Bad_def record_V1_def world_V1_def
  world_empty_def deployData_of_def item_a_def item_b_def classifyProxyKind_def
  assertNotProxy_beacon_def layoutForAddress_def skip_opts_def uups_opts_def args_opts_def
  prefixed_interface_def factory_V1_prefixed_def record_V2_def world_V2_def
  upgrade_V2_calls_def upgrade_V2_again_calls_def

lemmas run_defs = deployProxyImpl_run deployBeaconImpl_run deployImpl_run storageCheck_Some
  fetchOrDeploy_run txResponse_value_def txResponse_events_def callback_result_def
  toRecord_def getDeployData_def resolve_events_def

lemma run_Bad_upgrade:
  "deployImpl example_env example_hre (deployData_of ''Bad'' version_Bad [item_b] no_opts)
     factory_Bad no_opts (Some ''0xImplV1'') world_V1 =
   (Inl (UpgradeSafetyError [''selfdestruct'']), world_V1, [EvAssertUpgradeSafe])"
  by (simp add: run_defs example_defs)

lemma run_downgrade_V1:
  "deployImpl example_env example_hre (deployData_of ''V1'' version_V1 [item_a] no_opts)
     factory_V1 no_opts (Some ''0xImplV2'') world_V2 =
   (Inl (StorageLayoutError [''a'', ''b'']), world_V2,
    [EvAssertUpgradeSafe, EvManifestForNetwork, EvGetStorageLayoutForAddress ''0xImplV2'',
     EvAssertStorageUpgradeSafe [item_a, item_b] [item_a]])"
  by (simp add: run_defs example_defs)

lemma run_skip_upgrade:
  "deployImpl example_env example_hre
     (deployData_of ''V2'' version_V2 [item_a, item_b] skip_opts)
     factory_V2 skip_opts (Some ''0xImplV1'') world_V1 =
   (Inr \<lparr>impl = ''0xImplV2'', DeployedImpl.kind = None, txResponse = None\<rparr>, world_V2,
    [EvAssertUpgradeSafe, EvManifestForNetwork, EvGetStorageLayoutForAddress ''0xImplV1'',
     EvFetchOrDeployGetDeployment version_V2, EvDeploy,
     EvManifestInsert version_V2 record_V2])"
  by (simp add: run_defs example_defs)




lemma run_upgrade_V2:
  "deployProxyImpl example_env example_hre factory_V2 no_opts (Some ''0xProxy'') world_V1 =
   (Inr \<lparr>impl = ''0xImplV2'', DeployedImpl.kind = Some Transparent, txResponse = None\<rparr>,
    world_V2, upgrade_V2_calls)"
  by (simp add: run_defs example_defs)

lemma run_upgrade_V2_again:
  "deployProxyImpl example_env example_hre factory_V2 no_opts (Some ''0xProxy'') world_V2 =
   (Inr \<lparr>impl = ''0xImplV2'', DeployedImpl.kind = Some Transparent, txResponse = None\<rparr>,
    world_V2, upgrade_V2_again_calls)"
  by (simp add: run_defs example_defs)

lemma run_beacon_on_proxy:
  "deployBeaconImpl example_env example_hre factory_V2 no_opts (Some ''0xProxy'') world_V1 =
   (Inl NotABeaconTargetError, world_V1, resolve_events @ [EvAssertNotProxy ''0xProxy''])"
  by (simp add: run_defs example_defs)

lemma run_uups_on_transparent:
  "deployProxyImpl example_env example_hre factory_V2 uups_opts (Some ''0xProxy'') world_V1 =
   (Inl ProxyKindMismatchError, world_V1,
    resolve_events @ [EvProcessProxyKind (Some ''0xProxy'')])"
  by (simp add: run_defs example_defs)

lemma resolve_V2:
  "getDeployData example_env example_hre factory_V2 no_opts world_V1 =
     (Inr (deployData_of ''V2'' version_V2 [item_a, item_b] no_opts), world_V1, resolve_events)"
  by (simp add: getDeployData_def example_defs resolve_events_def)

lemma resolve_V2_uups:
  "getDeployData example_env example_hre factory_V2 uups_opts world_V1 =
     (Inr (deployData_of ''V2'' version_V2 [item_a, item_b] uups_opts), world_V1,
      resolve_events)"
  by (simp add: getDeployData_def example_defs resolve_events_def)

section \<open>The safety gates come before the deployment\<close>

text \<open>
  C3. For every invocation of \<^verbatim>\<open>deployImpl\<close>: if \<^verbatim>\<open>assertUpgradeSafe\<close> raises, or
  \<^verbatim>\<open>assertStorageUpgradeSafe\<close> is called and raises, the invocation ends with that error,
  the world is as it was (no transaction was sent, nothing was recorded) and neither the
  deployment cache nor its callback was called.
\<close>

theorem gate_failure_aborts_before_deployment:
  assumes run: "deployImpl env hre dd F opts cur w = (r, w', t)"
    and raises: "assertUpgradeSafe env (validations dd) (version dd) (fullOpts dd) = Inl e
         \<or> (EvAssertStorageUpgradeSafe old new \<in> set t
            \<and> assertStorageUpgradeSafe env old new (fullOpts dd) = Inl e)"
  shows "r = Inl e \<and> w' = w \<and> (\<forall>ev \<in> set t. \<not> is_deployment_event ev)"
  using assms
  by (cases cur)
     (auto simp: deployImpl_run storageCheck_Some fetchOrDeploy_run is_deployment_event_def
             txResponse_events_def
           split: run_splits)

theorem gate_failure_aborts_before_deployment_witness:
  "deployImpl example_env example_hre (deployData_of ''Bad'' version_Bad [item_b] no_opts)
     factory_Bad no_opts (Some ''0xImplV1'') world_V1
     = (Inl (UpgradeSafetyError [''selfdestruct'']), world_V1, [EvAssertUpgradeSafe])
   \<and> assertUpgradeSafe example_env
        (validations (deployData_of ''Bad'' version_Bad [item_b] no_opts))
        (version (deployData_of ''Bad'' version_Bad [item_b] no_opts))
        (fullOpts (deployData_of ''Bad'' version_Bad [item_b] no_opts))
      = Inl (UpgradeSafetyError [''selfdestruct''])
   \<and> \<not> is_deployment_event EvAssertUpgradeSafe
   \<and> deployImpl example_env example_hre (deployData_of ''V1'' version_V1 [item_a] no_opts)
       factory_V1 no_opts (Some ''0xImplV2'') world_V2
     = (Inl (StorageLayoutError [''a'', ''b'']), world_V2,
        [EvAssertUpgradeSafe, EvManifestForNetwork, EvGetStorageLayoutForAddress ''0xImplV2'',
         EvAssertStorageUpgradeSafe [item_a, item_b] [item_a]])
   \<and> assertStorageUpgradeSafe example_env [item_a, item_b] [item_a]
        (fullOpts (deployData_of ''V1'' version_V1 [item_a] no_opts))
      = Inl (StorageLayoutError [''a'', ''b''])
   \<and> \<not> list_ex is_deployment_event
        [EvAssertUpgradeSafe, EvManifestForNetwork, EvGetStorageLayoutForAddress ''0xImplV2'',
         EvAssertStorageUpgradeSafe [item_a, item_b] [item_a]]"
proof -
  have unsafe: "assertUpgradeSafe example_env
        (validations (deployData_of ''Bad'' version_Bad [item_b] no_opts))
        (version (deployData_of ''Bad'' version_Bad [item_b] no_opts))
        (fullOpts (deployData_of ''Bad'' version_Bad [item_b] no_opts))
      = Inl (UpgradeSafetyError [''selfdestruct''])"
    by (simp add: example_defs)
  have incompatible: "assertStorageUpgradeSafe example_env [item_a, item_b] [item_a]
        (fullOpts (deployData_of ''V1'' version_V1 [item_a] no_opts))
      = Inl (StorageLayoutError [''a'', ''b''])"
    by (simp add: example_defs)
  have called: "EvAssertStorageUpgradeSafe [item_a, item_b] [item_a]
      \<in> set [EvAssertUpgradeSafe, EvManifestForNetwork,
               EvGetStorageLayoutForAddress ''0xImplV2'',
               EvAssertStorageUpgradeSafe [item_a, item_b] [item_a]]"
    by simp
  from gate_failure_aborts_before_deployment [OF run_Bad_upgrade disjI1, OF unsafe]
  have first: "\<not> is_deployment_event EvAssertUpgradeSafe" by simp
  from gate_failure_aborts_before_deployment
    [OF run_downgrade_V1 disjI2, OF conjI, OF called incompatible]
  have second: "\<not> list_ex is_deployment_event
        [EvAssertUpgradeSafe, EvManifestForNetwork, EvGetStorageLayoutForAddress ''0xImplV2'',
         EvAssertStorageUpgradeSafe [item_a, item_b] [item_a]]"
    by (simp add: list_ex_iff)
  from first second unsafe incompatible run_Bad_upgrade run_downgrade_V1
  show ?thesis by simp
qed

section \<open>Skipping the storage check\<close>

text \<open>
  C1, as the specification states it: in an upgrade with \<^verbatim>\<open>unsafeSkipStorageCheck\<close> set
  the old layout is never computed. The module does compute it: in the upgrade of the
  example project to \<open>V2\<close> with the option set, \<^verbatim>\<open>Manifest.forNetwork\<close> and
  \<^verbatim>\<open>getStorageLayoutForAddress\<close> are both called.
\<close>

theorem skip_still_computes_old_layout:
  "Options.unsafeSkipStorageCheck skip_opts = Some True
   \<and> EvManifestForNetwork \<in> set (trace_of
        (deployImpl example_env example_hre
           (deployData_of ''V2'' version_V2 [item_a, item_b] skip_opts)
           factory_V2 skip_opts (Some ''0xImplV1'') world_V1))
   \<and> EvGetStorageLayoutForAddress ''0xImplV1'' \<in> set (trace_of
        (deployImpl example_env example_hre
           (deployData_of ''V2'' version_V2 [item_a, item_b] skip_opts)
           factory_V2 skip_opts (Some ''0xImplV1'') world_V1))"
  by (simp add: run_skip_upgrade) (simp add: skip_opts_def no_opts_def)

text \<open>
  C1, amended: in an upgrade invocation of \<^verbatim>\<open>deployImpl\<close> with
  \<^verbatim>\<open>unsafeSkipStorageCheck\<close> set, \<^verbatim>\<open>assertStorageUpgradeSafe\<close> is never called. The old
  layout is still computed: once \<^verbatim>\<open>assertUpgradeSafe\<close> has passed, \<^verbatim>\<open>Manifest.forNetwork\<close>
  is called, and when it returns, \<^verbatim>\<open>getStorageLayoutForAddress\<close> is called for the current
  implementation address; an error of that call ends the invocation before anything is
  deployed.
\<close>

theorem skip_omits_only_the_assertion:
  assumes run: "deployImpl env hre dd F opts (Some a) w = (r, w', t)"
    and skip: "Options.unsafeSkipStorageCheck opts = Some True"
  shows "(\<forall>ev \<in> set t. \<not> is_storage_gate_event ev)
       \<and> (assertUpgradeSafe env (validations dd) (version dd) (fullOpts dd) = Inr ()
            \<longrightarrow> EvManifestForNetwork \<in> set t
              \<and> (\<forall>m. Manifest_forNetwork env (provider dd) w = Inr m
                    \<longrightarrow> EvGetStorageLayoutForAddress a \<in> set t
                      \<and> (\<forall>e. getStorageLayoutForAddress env m (validations dd) a w = Inl e
                             \<longrightarrow> r = Inl e \<and> w' = w)))"
  using assms
  by (auto simp: deployImpl_run storageCheck_Some fetchOrDeploy_run is_storage_gate_event_def
             txResponse_events_def
           split: run_splits)

theorem skip_omits_only_the_assertion_witness:
  "Options.unsafeSkipStorageCheck skip_opts = Some True
   \<and> \<not> list_ex is_storage_gate_event
        [EvAssertUpgradeSafe, EvManifestForNetwork, EvGetStorageLayoutForAddress ''0xImplV1'',
         EvFetchOrDeployGetDeployment version_V2, EvDeploy,
         EvManifestInsert version_V2 record_V2]
   \<and> assertUpgradeSafe example_env
         (validations (deployData_of ''V2'' version_V2 [item_a, item_b] skip_opts))
         (version (deployData_of ''V2'' version_V2 [item_a, item_b] skip_opts))
         (fullOpts (deployData_of ''V2'' version_V2 [item_a, item_b] skip_opts)) = Inr ()"
proof -
  have skip: "Options.unsafeSkipStorageCheck skip_opts = Some True"
    by (simp add: skip_opts_def no_opts_def)
  have safe: "assertUpgradeSafe example_env
         (validations (deployData_of ''V2'' version_V2 [item_a, item_b] skip_opts))
         (version (deployData_of ''V2'' version_V2 [item_a, item_b] skip_opts))
         (fullOpts (deployData_of ''V2'' version_V2 [item_a, item_b] skip_opts)) = Inr ()"
    by (simp add: example_defs)
  from skip_omits_only_the_assertion [OF run_skip_upgrade skip]
  show ?thesis using skip safe by (simp add: list_ex_iff)
qed

section \<open>The order of the steps\<close>

text \<open>
  C2, as the specification states it: in an upgrade the current implementation's layout
  is fetched before \<^verbatim>\<open>assertUpgradeSafe\<close>. The module calls \<^verbatim>\<open>assertUpgradeSafe\<close> first
  (line 105) and fetches the layout after it (lines 110 and 111): the steps of the upgrade
  of the example project to \<open>V2\<close>, even with the reading of the implementation address
  left out, are no prefix of the order of the specification.
\<close>

theorem upgrade_steps_not_in_spec_order:
  "steps_of (trace_of
     (deployProxyImpl example_env example_hre factory_V2 no_opts (Some ''0xProxy'') world_V1))
     = [ResolveDeployData, ClassifyTarget, ReadCurrentImplementation, AssertUpgradeSafe,
        FetchCurrentLayout, AssertStorageUpgradeSafe, FetchOrDeploy]
   \<and> \<not> prefix
        (named_in_spec
           (steps_of (trace_of
              (deployProxyImpl example_env example_hre factory_V2 no_opts (Some ''0xProxy'')
                 world_V1))))
        (spec_order (Options.unsafeSkipStorageCheck no_opts = Some True))"
proof -
  have not_skipped: "(Options.unsafeSkipStorageCheck no_opts = Some True) = False"
    by (simp add: no_opts_def)
  show ?thesis
    by (simp add: run_upgrade_V2 upgrade_V2_calls_def steps_of_def resolve_events_def
          spec_order_def named_in_spec_def not_skipped)
qed

text \<open>
  C2, amended: in every upgrade invocation, through \<^verbatim>\<open>deployProxyImpl\<close> or
  \<^verbatim>\<open>deployBeaconImpl\<close>, the steps occur in this order: resolve the deploy data, classify
  the target, read the current implementation address, \<^verbatim>\<open>assertUpgradeSafe\<close>, fetch the
  current implementation's layout, then (if not skipped) \<^verbatim>\<open>assertStorageUpgradeSafe\<close>,
  then the deployment cache, then the assembly of the result. An invocation that fails
  stops after a prefix of that sequence; one that succeeds has gone through every step
  up to the deployment cache.
\<close>

theorem upgrade_steps_in_code_order:
  assumes run: "deployProxyImpl env hre F opts (Some target) w = (r, w', t)
              \<or> deployBeaconImpl env hre F opts (Some target) w = (r, w', t)"
  shows "prefix (steps_of t) (code_order (Options.unsafeSkipStorageCheck opts = Some True))
       \<and> ((\<exists>x. r = Inr x) \<longrightarrow>
            prefix (butlast (code_order (Options.unsafeSkipStorageCheck opts = Some True)))
              (steps_of t))"
  using run
proof
  assume "deployProxyImpl env hre F opts (Some target) w = (r, w', t)"
  then show ?thesis
  proof (cases rule: deployProxyImpl_cases)
    case (resolve_failed e)
    with steps_of_resolve_prefix [OF getDeployData_trace [of env hre F opts w]]
    show ?thesis by (auto simp: code_order_def)
  next
    case (kind_failed dd e)
    then show ?thesis by (simp add: steps_of_def resolve_events_def code_order_def)
  next
    case (read_failed dd k p e)
    then show ?thesis by (simp add: steps_of_def resolve_events_def code_order_def)
  next
    case (upgrade dd k p a t1)
    have "map step_of (resolve_events @ [EvProcessProxyKind (Some target), EvGetImplementationAddress p])
        = [ResolveDeployData, ResolveDeployData, ResolveDeployData,
                ResolveDeployData, ResolveDeployData, ClassifyTarget, ReadCurrentImplementation]"
      by (simp add: resolve_events_def)
    from deployImpl_upgrade_steps [OF upgrade(5) this] upgrade(6) show ?thesis by simp
  qed simp
next
  assume "deployBeaconImpl env hre F opts (Some target) w = (r, w', t)"
  then show ?thesis
  proof (cases rule: deployBeaconImpl_cases)
    case (resolve_failed e)
    with steps_of_resolve_prefix [OF getDeployData_trace [of env hre F opts w]]
    show ?thesis by (auto simp: code_order_def)
  next
    case (is_proxy dd b e)
    then show ?thesis by (simp add: steps_of_def resolve_events_def code_order_def)
  next
    case (read_failed dd b e)
    then show ?thesis by (simp add: steps_of_def resolve_events_def code_order_def)
  next
    case (upgrade dd b a t1)
    have "map step_of (resolve_events @ [EvAssertNotProxy b, EvGetImplementationAddressFromBeacon b])
        = [ResolveDeployData, ResolveDeployData, ResolveDeployData,
                ResolveDeployData, ResolveDeployData, ClassifyTarget, ReadCurrentImplementation]"
      by (simp add: resolve_events_def)
    from deployImpl_upgrade_steps [OF upgrade(5) this] upgrade(6) show ?thesis by simp
  qed simp
qed

theorem upgrade_steps_in_code_order_witness:
  "prefix (steps_of upgrade_V2_calls)
     (code_order (Options.unsafeSkipStorageCheck no_opts = Some True))
   \<and> prefix (butlast (code_order (Options.unsafeSkipStorageCheck no_opts = Some True)))
       (steps_of upgrade_V2_calls)"
  using upgrade_steps_in_code_order [OF disjI1, OF run_upgrade_V2] by simp

section \<open>Calling twice\<close>

text \<open>
  C4. Let a first call of \<^verbatim>\<open>deployProxyImpl\<close> or of \<^verbatim>\<open>deployBeaconImpl\<close> succeed for a
  candidate whose version was not in the manifest, and let the file system and the
  provider answer a second call as they answered the first. Then the second call with the
  same inputs succeeds, looks the same version up in the deployment cache, returns the
  address of the record stored under it, which is the address the first call returned,
  and calls \<^verbatim>\<open>deploy\<close> zero times (the callback calls \<^verbatim>\<open>deploy\<close> once each time it
  runs): the two calls together deploy exactly once. The deployment cache and
  \<^verbatim>\<open>getStorageLayoutForAddress\<close> are the ones modelled from the specification.
\<close>

theorem second_call_hits_cache:
  assumes spec: "getStorageLayoutForAddress env = layoutForAddress (getStorageLayout env)"
    and first:
      "deployProxyImpl env hre F opts target w = (Inr r1, w1, t1)
         \<and> second = deployProxyImpl env hre F opts target w1
         \<and> processProxyKind env (network_provider hre) target opts (validations dd)
               (version dd) w1
             = processProxyKind env (network_provider hre) target opts (validations dd)
                 (version dd) w
         \<and> map_option (\<lambda>a. getImplementationAddress env (network_provider hre) a w1) target
             = map_option (\<lambda>a. getImplementationAddress env (network_provider hre) a w) target
       \<or> deployBeaconImpl env hre F opts target w = (Inr r1, w1, t1)
         \<and> second = deployBeaconImpl env hre F opts target w1
         \<and> map_option (\<lambda>a. assertNotProxy env (network_provider hre) a w1) target
             = map_option (\<lambda>a. assertNotProxy env (network_provider hre) a w) target
         \<and> map_option (\<lambda>a. getImplementationAddressFromBeacon env (network_provider hre) a w1)
               target
             = map_option (\<lambda>a. getImplementationAddressFromBeacon env (network_provider hre) a w)
                 target"
    and resolved: "result_of (getDeployData env hre F opts w) = Inr dd"
    and unrecorded: "map_of (manifest w) (network_provider hre, version dd) = None"
    and same_files: "readValidations env hre w1 = readValidations env hre w"
    and same_manifest_handle:
      "Manifest_forNetwork env (network_provider hre) w1
         = Manifest_forNetwork env (network_provider hre) w"
  shows "\<exists>r2 t2 d.
           second = (Inr r2, w1, t2)
         \<and> EvFetchOrDeployGetDeployment (version dd) \<in> set t2
         \<and> map_of (manifest w1) (network_provider hre, version dd) = Some d
         \<and> impl r2 = Deployment.address d
         \<and> impl r2 = impl r1
         \<and> DeployedImpl.kind r2 = DeployedImpl.kind r1
         \<and> count_list t2 EvDeploy = 0
         \<and> count_list (t1 @ t2) EvDeploy = 1"
proof -
  from getDeployData_Inr [OF resolved]
  have prov: "provider dd = network_provider hre" by simp
  have resolved1: "result_of (getDeployData env hre F opts w1) = Inr dd"
    using getDeployData_reads_validations_only [OF same_files] resolved by simp
  from first show ?thesis
  proof (elim disjE conjE)
    assume run1: "deployProxyImpl env hre F opts target w = (Inr r1, w1, t1)"
      and second: "second = deployProxyImpl env hre F opts target w1"
      and same_kind:
        "processProxyKind env (network_provider hre) target opts (validations dd)
           (version dd) w1
         = processProxyKind env (network_provider hre) target opts (validations dd)
             (version dd) w"
      and same_implementation:
        "map_option (\<lambda>a. getImplementationAddress env (network_provider hre) a w1) target
         = map_option (\<lambda>a. getImplementationAddress env (network_provider hre) a w) target"
    from run1 show ?thesis
    proof (cases rule: deployProxyImpl_cases)
      case (fresh dd' k t1')
      with resolved have dd': "dd' = dd" by simp
      note kind = fresh(2) [unfolded dd' prov] and none = fresh(3)
        and run = fresh(4) [unfolded dd'] and t1 = fresh(5)
      from deployImpl_again [OF spec run] same_manifest_handle prov unrecorded
      obtain d t2 where again:
          "deployImpl env hre dd F (opts\<lparr>Options.kind := k\<rparr>) None w1
             = (Inr \<lparr>impl = Deployment.address d, DeployedImpl.kind = k,
                     txResponse = txResponse_value (opts\<lparr>Options.kind := k\<rparr>) d\<rparr>, w1, t2)"
        and found: "map_of (manifest w1) (network_provider hre, version dd) = Some d"
        and same: "impl r1 = Deployment.address d" "DeployedImpl.kind r1 = k"
        and cache: "EvFetchOrDeployGetDeployment (version dd) \<in> set t2"
        and none2: "count_list t2 EvDeploy = 0"
        and once: "count_list t1' EvDeploy = 1"
        by auto
      have "second
              = (Inr \<lparr>impl = Deployment.address d, DeployedImpl.kind = k,
                      txResponse = txResponse_value (opts\<lparr>Options.kind := k\<rparr>) d\<rparr>, w1,
                 resolve_events @ [EvProcessProxyKind None] @ t2)"
        unfolding second
        using resolved1 kind same_kind none again prov
        by (simp add: deployProxyImpl_run)
      with found same cache none2 once t1 none resolve_events_no_deploy show ?thesis
        by (intro exI conjI) (assumption | simp)+
    next
      case (upgrade dd' k p a t1')
      with resolved have dd': "dd' = dd" by simp
      note kind = upgrade(2) [unfolded dd' prov] and some = upgrade(3)
        and read = upgrade(4) [unfolded dd' prov]
        and run = upgrade(5) [unfolded dd'] and t1 = upgrade(6)
      from same_implementation some read
      have read1: "getImplementationAddress env (network_provider hre) p w1 = Inr a" by simp
      from deployImpl_again [OF spec run] same_manifest_handle prov unrecorded
      obtain d t2 where again:
          "deployImpl env hre dd F (opts\<lparr>Options.kind := k\<rparr>) (Some a) w1
             = (Inr \<lparr>impl = Deployment.address d, DeployedImpl.kind = k,
                     txResponse = txResponse_value (opts\<lparr>Options.kind := k\<rparr>) d\<rparr>, w1, t2)"
        and found: "map_of (manifest w1) (network_provider hre, version dd) = Some d"
        and same: "impl r1 = Deployment.address d" "DeployedImpl.kind r1 = k"
        and cache: "EvFetchOrDeployGetDeployment (version dd) \<in> set t2"
        and none2: "count_list t2 EvDeploy = 0"
        and once: "count_list t1' EvDeploy = 1"
        by auto
      have "second
              = (Inr \<lparr>impl = Deployment.address d, DeployedImpl.kind = k,
                      txResponse = txResponse_value (opts\<lparr>Options.kind := k\<rparr>) d\<rparr>, w1,
                 resolve_events @ [EvProcessProxyKind (Some p), EvGetImplementationAddress p]
                   @ t2)"
        unfolding second
        using resolved1 kind same_kind some read1 again prov
        by (simp add: deployProxyImpl_run)
      with found same cache none2 once t1 some resolve_events_no_deploy show ?thesis
        by (intro exI conjI) (assumption | simp)+
    qed simp_all
  next
    assume run1: "deployBeaconImpl env hre F opts target w = (Inr r1, w1, t1)"
      and second: "second = deployBeaconImpl env hre F opts target w1"
      and same_check:
        "map_option (\<lambda>a. assertNotProxy env (network_provider hre) a w1) target
         = map_option (\<lambda>a. assertNotProxy env (network_provider hre) a w) target"
      and same_implementation:
        "map_option (\<lambda>a. getImplementationAddressFromBeacon env (network_provider hre) a w1)
           target
         = map_option (\<lambda>a. getImplementationAddressFromBeacon env (network_provider hre) a w)
             target"
    from run1 show ?thesis
    proof (cases rule: deployBeaconImpl_cases)
      case (fresh dd' t1')
      with resolved have dd': "dd' = dd" by simp
      note none = fresh(2) and run = fresh(3) [unfolded dd'] and t1 = fresh(4)
      from deployImpl_again [OF spec run] same_manifest_handle prov unrecorded
      obtain d t2 where again:
          "deployImpl env hre dd F opts None w1
             = (Inr \<lparr>impl = Deployment.address d, DeployedImpl.kind = Options.kind opts,
                     txResponse = txResponse_value opts d\<rparr>, w1, t2)"
        and found: "map_of (manifest w1) (network_provider hre, version dd) = Some d"
        and same: "impl r1 = Deployment.address d" "DeployedImpl.kind r1 = Options.kind opts"
        and cache: "EvFetchOrDeployGetDeployment (version dd) \<in> set t2"
        and none2: "count_list t2 EvDeploy = 0"
        and once: "count_list t1' EvDeploy = 1"
        by auto
      have "second
              = (Inr \<lparr>impl = Deployment.address d, DeployedImpl.kind = Options.kind opts,
                      txResponse = txResponse_value opts d\<rparr>, w1, resolve_events @ t2)"
        unfolding second
        using resolved1 none again prov
        by (simp add: deployBeaconImpl_run)
      with found same cache none2 once t1 none resolve_events_no_deploy show ?thesis
        by (intro exI conjI) (assumption | simp)+
    next
      case (upgrade dd' b a t1')
      with resolved have dd': "dd' = dd" by simp
      note some = upgrade(2) and check = upgrade(3) [unfolded dd' prov]
        and read = upgrade(4) [unfolded dd' prov]
        and run = upgrade(5) [unfolded dd'] and t1 = upgrade(6)
      from same_check some check
      have check1: "assertNotProxy env (network_provider hre) b w1 = Inr ()" by simp
      from same_implementation some read
      have read1: "getImplementationAddressFromBeacon env (network_provider hre) b w1 = Inr a"
        by simp
      from deployImpl_again [OF spec run] same_manifest_handle prov unrecorded
      obtain d t2 where again:
          "deployImpl env hre dd F opts (Some a) w1
             = (Inr \<lparr>impl = Deployment.address d, DeployedImpl.kind = Options.kind opts,
                     txResponse = txResponse_value opts d\<rparr>, w1, t2)"
        and found: "map_of (manifest w1) (network_provider hre, version dd) = Some d"
        and same: "impl r1 = Deployment.address d" "DeployedImpl.kind r1 = Options.kind opts"
        and cache: "EvFetchOrDeployGetDeployment (version dd) \<in> set t2"
        and none2: "count_list t2 EvDeploy = 0"
        and once: "count_list t1' EvDeploy = 1"
        by auto
      have "second
              = (Inr \<lparr>impl = Deployment.address d, DeployedImpl.kind = Options.kind opts,
                      txResponse = txResponse_value opts d\<rparr>, w1,
                 resolve_events
                   @ [EvAssertNotProxy b, EvGetImplementationAddressFromBeacon b] @ t2)"
        unfolding second
        using resolved1 some check1 read1 again prov
        by (simp add: deployBeaconImpl_run)
      with found same cache none2 once t1 some resolve_events_no_deploy show ?thesis
        by (intro exI conjI) (assumption | simp)+
    qed simp_all
  qed
qed

theorem second_call_hits_cache_witness:
  "deployProxyImpl example_env example_hre factory_V2 no_opts (Some ''0xProxy'') world_V1
     = (Inr \<lparr>impl = ''0xImplV2'', DeployedImpl.kind = Some Transparent, txResponse = None\<rparr>,
        world_V2, upgrade_V2_calls)
   \<and> map_of (manifest world_V1) (network_provider example_hre, version_V2) = None
   \<and> deployProxyImpl example_env example_hre factory_V2 no_opts (Some ''0xProxy'') world_V2
     = (Inr \<lparr>impl = ''0xImplV2'', DeployedImpl.kind = Some Transparent, txResponse = None\<rparr>,
        world_V2, upgrade_V2_again_calls)
   \<and> EvFetchOrDeployGetDeployment version_V2 \<in> set upgrade_V2_again_calls
   \<and> map_of (manifest world_V2) (network_provider example_hre, version_V2) = Some record_V2
   \<and> Deployment.address record_V2 = ''0xImplV2''
   \<and> count_list upgrade_V2_again_calls EvDeploy = 0
   \<and> count_list (upgrade_V2_calls @ upgrade_V2_again_calls) EvDeploy = 1"
proof -
  let ?dd = "deployData_of ''V2'' version_V2 [item_a, item_b] no_opts"
  have ver: "version ?dd = version_V2" by (simp add: deployData_of_def)
  have unrecorded: "map_of (manifest world_V1) (network_provider example_hre, version ?dd) = None"
    by (simp add: example_defs)
  have "\<exists>r2 t2 d.
      deployProxyImpl example_env example_hre factory_V2 no_opts (Some ''0xProxy'') world_V2
        = (Inr r2, world_V2, t2)
    \<and> EvFetchOrDeployGetDeployment (version ?dd) \<in> set t2
    \<and> map_of (manifest world_V2) (network_provider example_hre, version ?dd) = Some d
    \<and> impl r2 = Deployment.address d
    \<and> impl r2 = impl \<lparr>impl = ''0xImplV2'', DeployedImpl.kind = Some Transparent,
                        txResponse = None\<rparr>
    \<and> DeployedImpl.kind r2
        = DeployedImpl.kind \<lparr>impl = ''0xImplV2'', DeployedImpl.kind = Some Transparent,
                              txResponse = None\<rparr>
    \<and> count_list t2 EvDeploy = 0
    \<and> count_list (upgrade_V2_calls @ t2) EvDeploy = 1"
  proof (rule second_call_hits_cache [OF _ disjI1 _ unrecorded])
    show "getStorageLayoutForAddress example_env
            = layoutForAddress (getStorageLayout example_env)"
      by (simp add: example_env_sel)
    show "result_of (getDeployData example_env example_hre factory_V2 no_opts world_V1)
            = Inr ?dd"
      by (simp add: resolve_V2)
    show "deployProxyImpl example_env example_hre factory_V2 no_opts (Some ''0xProxy'') world_V1
            = (Inr \<lparr>impl = ''0xImplV2'', DeployedImpl.kind = Some Transparent,
                    txResponse = None\<rparr>, world_V2, upgrade_V2_calls)
        \<and> deployProxyImpl example_env example_hre factory_V2 no_opts (Some ''0xProxy'') world_V2
            = deployProxyImpl example_env example_hre factory_V2 no_opts (Some ''0xProxy'')
                world_V2
        \<and> processProxyKind example_env (network_provider example_hre) (Some ''0xProxy'')
              no_opts (validations ?dd) (version ?dd) world_V2
            = processProxyKind example_env (network_provider example_hre) (Some ''0xProxy'')
                no_opts (validations ?dd) (version ?dd) world_V1
        \<and> map_option
              (\<lambda>a. getImplementationAddress example_env (network_provider example_hre) a
                     world_V2) (Some ''0xProxy'')
            = map_option
                (\<lambda>a. getImplementationAddress example_env (network_provider example_hre) a
                       world_V1) (Some ''0xProxy'')"
      using run_upgrade_V2 by (simp add: example_env_sel classifyProxyKind_def
            example_classify_def)
  qed (simp_all add: example_env_sel)
  then obtain r2 t2 d where
      again: "deployProxyImpl example_env example_hre factory_V2 no_opts (Some ''0xProxy'')
                world_V2 = (Inr r2, world_V2, t2)"
    and cache: "EvFetchOrDeployGetDeployment (version ?dd) \<in> set t2"
    and stored: "map_of (manifest world_V2) (network_provider example_hre, version ?dd) = Some d"
    and same: "impl r2 = Deployment.address d" "impl r2 = ''0xImplV2''"
    and none: "count_list t2 EvDeploy = 0"
    and once: "count_list (upgrade_V2_calls @ t2) EvDeploy = 1"
    by auto
  from again run_upgrade_V2_again have t2: "t2 = upgrade_V2_again_calls" by simp
  have d: "map_of (manifest world_V2) (network_provider example_hre, version_V2)
             = Some record_V2"
    by (simp add: example_defs)
  have "Deployment.address record_V2 = ''0xImplV2''" by (simp add: record_V2_def)
  with cache stored none once d unrecorded run_upgrade_V2 run_upgrade_V2_again
  show ?thesis unfolding t2 ver by simp
qed

section \<open>What the storage gate compares\<close>

text \<open>
  C5. In an upgrade through \<^verbatim>\<open>deployProxyImpl\<close> or \<^verbatim>\<open>deployBeaconImpl\<close>, whenever
  \<^verbatim>\<open>assertStorageUpgradeSafe\<close> is called, its first argument is the layout that
  \<^verbatim>\<open>getStorageLayoutForAddress\<close> resolves, in the world of this invocation, for the
  address that the provider answers for the proxy (\<^verbatim>\<open>getImplementationAddress\<close>) or the
  beacon (\<^verbatim>\<open>getImplementationAddressFromBeacon\<close>) in that same world, and its second
  argument is the layout of the candidate. A successful upgrade that does not skip the
  check has made that call.
\<close>

theorem storage_gate_compares_current_layout:
  assumes run:
    "deployProxyImpl env hre F opts (Some target) w = (r, w', t)
       \<and> current_read = getImplementationAddress env (network_provider hre) target w
     \<or> deployBeaconImpl env hre F opts (Some target) w = (r, w', t)
       \<and> current_read = getImplementationAddressFromBeacon env (network_provider hre) target w"
  shows "(EvAssertStorageUpgradeSafe old new \<in> set t \<longrightarrow>
           (\<exists>dd current m.
               result_of (getDeployData env hre F opts w) = Inr dd
             \<and> current_read = Inr current
             \<and> Manifest_forNetwork env (provider dd) w = Inr m
             \<and> getStorageLayoutForAddress env m (validations dd) current w = Inr old
             \<and> new = DeployData.layout dd))
       \<and> ((\<exists>x. r = Inr x) \<and> Options.unsafeSkipStorageCheck opts \<noteq> Some True \<longrightarrow>
            (\<exists>old new. EvAssertStorageUpgradeSafe old new \<in> set t))"
  using run
proof (elim disjE conjE)
  assume "deployProxyImpl env hre F opts (Some target) w = (r, w', t)"
    and cur: "current_read = getImplementationAddress env (network_provider hre) target w"
  then show ?thesis
  proof (cases rule: deployProxyImpl_cases)
    case (resolve_failed e)
    then show ?thesis
      by (auto dest!: getDeployData_events resolve_events_kinds
            simp: is_storage_gate_event_def)
  next
    case (kind_failed dd e)
    then show ?thesis by (auto simp: resolve_events_def)
  next
    case (read_failed dd k p e)
    then show ?thesis by (auto simp: resolve_events_def)
  next
    case (upgrade dd k p a t1)
    from getDeployData_Inr [OF upgrade(1)] have "provider dd = network_provider hre" by simp
    with deployImpl_storage_gate_call [OF upgrade(5), of old new] upgrade(1,2,3,4,6) cur
    show ?thesis
      by (auto simp: resolve_events_def)
  qed simp
next
  assume "deployBeaconImpl env hre F opts (Some target) w = (r, w', t)"
    and cur: "current_read
                = getImplementationAddressFromBeacon env (network_provider hre) target w"
  then show ?thesis
  proof (cases rule: deployBeaconImpl_cases)
    case (resolve_failed e)
    then show ?thesis
      by (auto dest!: getDeployData_events resolve_events_kinds
            simp: is_storage_gate_event_def)
  next
    case (is_proxy dd b e)
    then show ?thesis by (auto simp: resolve_events_def)
  next
    case (read_failed dd b e)
    then show ?thesis by (auto simp: resolve_events_def)
  next
    case (upgrade dd b a t1)
    from getDeployData_Inr [OF upgrade(1)] have "provider dd = network_provider hre" by simp
    with deployImpl_storage_gate_call [OF upgrade(5), of old new] upgrade(1,2,3,4,6) cur
    show ?thesis
      by (auto simp: resolve_events_def)
  qed simp
qed

theorem storage_gate_compares_current_layout_witness:
  "deployProxyImpl example_env example_hre factory_V2 no_opts (Some ''0xProxy'') world_V1
     = (Inr \<lparr>impl = ''0xImplV2'', DeployedImpl.kind = Some Transparent, txResponse = None\<rparr>,
        world_V2, upgrade_V2_calls)
   \<and> EvAssertStorageUpgradeSafe [item_a] [item_a, item_b] \<in> set upgrade_V2_calls
   \<and> getImplementationAddress example_env (network_provider example_hre) ''0xProxy'' world_V1
       = Inr ''0xImplV1''
   \<and> Manifest_forNetwork example_env 31337 world_V1 = Inr 31337
   \<and> getStorageLayoutForAddress example_env 31337 example_validations ''0xImplV1'' world_V1
       = Inr [item_a]"
proof -
  have called: "EvAssertStorageUpgradeSafe [item_a] [item_a, item_b] \<in> set upgrade_V2_calls"
    by (simp add: upgrade_V2_calls_def)
  note fact = storage_gate_compares_current_layout
    [OF disjI1, OF conjI, OF run_upgrade_V2 refl, of "[item_a]" "[item_a, item_b]"]
  from fact called obtain dd current m where
      dd: "result_of (getDeployData example_env example_hre factory_V2 no_opts world_V1) = Inr dd"
    and current: "getImplementationAddress example_env (network_provider example_hre)
                    ''0xProxy'' world_V1 = Inr current"
    and m: "Manifest_forNetwork example_env (provider dd) world_V1 = Inr m"
    and old: "getStorageLayoutForAddress example_env m (validations dd) current world_V1
                = Inr [item_a]"
    by blast
  from dd have "dd = deployData_of ''V2'' version_V2 [item_a, item_b] no_opts"
    by (simp add: resolve_V2)
  then have "provider dd = 31337" "validations dd = example_validations"
    by (simp_all add: deployData_of_def)
  moreover from current have "current = ''0xImplV1''" by (simp add: example_env_sel)
  moreover from m \<open>provider dd = 31337\<close> have "m = 31337" by (simp add: example_env_sel)
  ultimately show ?thesis
    using called current m old run_upgrade_V2 by simp
qed

section \<open>The target of a beacon upgrade\<close>

text \<open>
  C6. In a beacon upgrade, \<^verbatim>\<open>deployBeaconImpl\<close> calls \<^verbatim>\<open>assertNotProxy\<close> on the beacon
  address after the deploy data is resolved and before anything else: before the current
  implementation is read, before the gates and before the deployment. When the target
  is a proxy the invocation fails, the world is as it was and no later step was made;
  with the deploy data resolved, the error is \<open>NotABeaconTargetError\<close> and that call is
  the last one. \<^verbatim>\<open>assertNotProxy\<close> is the one modelled from the specification.
\<close>

theorem beacon_target_checked_first:
  assumes spec: "assertNotProxy env = assertNotProxy_beacon isProxy"
    and run: "deployBeaconImpl env hre F opts (Some beacon) w = (r, w', t)"
  shows "(\<forall>ev \<in> set (takeWhile (\<lambda>ev. ev \<noteq> EvAssertNotProxy beacon) t).
            step_of ev = ResolveDeployData)
       \<and> (isProxy (network_provider hre) beacon w \<longrightarrow>
            (\<exists>e. r = Inl e) \<and> w' = w
            \<and> (\<forall>ev \<in> set t. step_of ev = ResolveDeployData \<or> ev = EvAssertNotProxy beacon)
            \<and> (\<forall>dd. result_of (getDeployData env hre F opts w) = Inr dd \<longrightarrow>
                  r = Inl NotABeaconTargetError
                  \<and> t = resolve_events @ [EvAssertNotProxy beacon]))"
  using run
proof (cases rule: deployBeaconImpl_cases)
  case (resolve_failed e)
  then show ?thesis
    by (auto dest!: set_takeWhileD getDeployData_events resolve_events_kinds)
next
  case (is_proxy dd b e)
  from getDeployData_Inr [OF is_proxy(1)] have "provider dd = network_provider hre" by simp
  with is_proxy spec show ?thesis
    by (auto simp: resolve_events_def assertNotProxy_beacon_def split: if_splits)
next
  case (read_failed dd b e)
  from getDeployData_Inr [OF read_failed(1)] have "provider dd = network_provider hre" by simp
  with read_failed spec show ?thesis
    by (auto simp: resolve_events_def assertNotProxy_beacon_def split: if_splits)
next
  case (upgrade dd b a t1)
  from getDeployData_Inr [OF upgrade(1)] have "provider dd = network_provider hre" by simp
  with upgrade spec show ?thesis
    by (auto simp: resolve_events_def assertNotProxy_beacon_def split: if_splits)
qed simp

theorem beacon_target_checked_first_witness:
  "example_isProxy (network_provider example_hre) ''0xProxy'' world_V1
   \<and> deployBeaconImpl example_env example_hre factory_V2 no_opts (Some ''0xProxy'') world_V1
       = (Inl NotABeaconTargetError, world_V1, resolve_events @ [EvAssertNotProxy ''0xProxy''])
   \<and> result_of (getDeployData example_env example_hre factory_V2 no_opts world_V1)
       = Inr (deployData_of ''V2'' version_V2 [item_a, item_b] no_opts)"
proof -
  have spec: "assertNotProxy example_env = assertNotProxy_beacon example_isProxy"
    by (simp add: example_env_sel)
  have proxy: "example_isProxy (network_provider example_hre) ''0xProxy'' world_V1"
    by (simp add: example_isProxy_def)
  have resolved: "result_of (getDeployData example_env example_hre factory_V2 no_opts world_V1)
       = Inr (deployData_of ''V2'' version_V2 [item_a, item_b] no_opts)"
    by (simp add: resolve_V2)
  from beacon_target_checked_first [OF spec run_beacon_on_proxy] proxy resolved
  have "Inl NotABeaconTargetError = (Inl NotABeaconTargetError :: error + DeployedImpl)
      \<and> resolve_events @ [EvAssertNotProxy ''0xProxy'']
          = resolve_events @ [EvAssertNotProxy ''0xProxy'']"
    by blast
  with proxy resolved run_beacon_on_proxy show ?thesis by simp
qed

section \<open>The kind of the proxy\<close>

text \<open>
  C7. In every invocation of \<^verbatim>\<open>deployProxyImpl\<close>, \<^verbatim>\<open>processProxyKind\<close> is called after
  the deploy data is resolved and before any other step, and a safety gate or the
  deployment cache is only ever called after \<^verbatim>\<open>processProxyKind\<close> has returned. When the
  kind classified for the proxy address disagrees with the kind requested in the options,
  the invocation fails, the world is as it was and no later step was made; with the deploy
  data resolved, the error is \<open>ProxyKindMismatchError\<close> and that call is the last one.
  \<^verbatim>\<open>processProxyKind\<close> is the one modelled from the specification.
\<close>

theorem proxy_kind_checked_first:
  assumes spec: "processProxyKind env = classifyProxyKind classify"
    and run: "deployProxyImpl env hre F opts target w = (r, w', t)"
  shows "(\<forall>ev \<in> set (takeWhile (\<lambda>ev. ev \<noteq> EvProcessProxyKind target) t).
            step_of ev = ResolveDeployData)
       \<and> (\<forall>ev \<in> set t. is_gate_event ev \<or> is_deployment_event ev \<longrightarrow>
            (\<exists>dd k. result_of (getDeployData env hre F opts w) = Inr dd
               \<and> processProxyKind env (provider dd) target opts (validations dd) (version dd) w
                    = Inr k))
       \<and> (\<forall>proxy found requested.
              target = Some proxy
            \<and> classify (network_provider hre) proxy w = Inr found
            \<and> Options.kind opts = Some requested \<and> requested \<noteq> found \<longrightarrow>
              (\<exists>e. r = Inl e) \<and> w' = w
            \<and> (\<forall>ev \<in> set t. step_of ev = ResolveDeployData \<or> ev = EvProcessProxyKind target)
            \<and> (\<forall>dd. result_of (getDeployData env hre F opts w) = Inr dd \<longrightarrow>
                  r = Inl ProxyKindMismatchError
                  \<and> t = resolve_events @ [EvProcessProxyKind target]))"
  using run
proof (cases rule: deployProxyImpl_cases)
  case (resolve_failed e)
  then show ?thesis
    by (auto dest!: set_takeWhileD getDeployData_events resolve_events_kinds)
next
  case (kind_failed dd e)
  from getDeployData_Inr [OF kind_failed(1)] have "provider dd = network_provider hre" by simp
  with kind_failed spec show ?thesis
    by (auto simp: resolve_events_def classifyProxyKind_def is_gate_event_def
          is_deployment_event_def split: if_splits)
next
  case (read_failed dd k p e)
  from getDeployData_Inr [OF read_failed(1)] have "provider dd = network_provider hre" by simp
  with read_failed spec show ?thesis
    by (auto simp: resolve_events_def classifyProxyKind_def is_gate_event_def
          is_deployment_event_def split: if_splits)
next
  case (fresh dd k t1)
  then show ?thesis
    by (auto simp: resolve_events_def)
next
  case (upgrade dd k p a t1)
  from getDeployData_Inr [OF upgrade(1)] have "provider dd = network_provider hre" by simp
  with upgrade spec show ?thesis
    by (auto simp: resolve_events_def classifyProxyKind_def split: if_splits)
qed

theorem proxy_kind_checked_first_witness:
  "classifyProxyKind example_classify = processProxyKind example_env
   \<and> example_classify (network_provider example_hre) ''0xProxy'' world_V1 = Inr Transparent
   \<and> Options.kind uups_opts = Some UUPS
   \<and> deployProxyImpl example_env example_hre factory_V2 uups_opts (Some ''0xProxy'') world_V1
       = (Inl ProxyKindMismatchError, world_V1,
          resolve_events @ [EvProcessProxyKind (Some ''0xProxy'')])"
proof -
  have spec: "processProxyKind example_env = classifyProxyKind example_classify"
    by (simp add: example_env_sel)
  have found: "example_classify (network_provider example_hre) ''0xProxy'' world_V1
                 = Inr Transparent"
    by (simp add: example_classify_def)
  have requested: "Options.kind uups_opts = Some UUPS"
    by (simp add: uups_opts_def no_opts_def)
  have resolved: "result_of (getDeployData example_env example_hre factory_V2 uups_opts world_V1)
       = Inr (deployData_of ''V2'' version_V2 [item_a, item_b] uups_opts)"
    by (simp add: resolve_V2_uups)
  from proxy_kind_checked_first [OF spec run_uups_on_transparent] found requested resolved
  have "Inl ProxyKindMismatchError = (Inl ProxyKindMismatchError :: error + DeployedImpl)"
    by blast
  with spec found requested run_uups_on_transparent show ?thesis by simp
qed

section \<open>What the version depends on\<close>

text \<open>
  C8, as the specification states it: two runs of \<^verbatim>\<open>getDeployData\<close> with the same
  validations, the same bytecode and the same constructor arguments give the same
  version. The module encodes the arguments with \<^verbatim>\<open>ImplFactory.interface\<close> (line 55), so
  two factories with one bytecode and two interfaces give two versions.
\<close>

theorem version_differs_with_interface:
  "bytecode factory_V1 = bytecode factory_V1_prefixed
   \<and> map_sum id version
        (result_of (getDeployData example_env example_hre factory_V1 args_opts world_empty))
      \<noteq> map_sum id version
        (result_of (getDeployData example_env example_hre factory_V1_prefixed args_opts
           world_empty))"
  by (simp add: getDeployData_def example_defs)

text \<open>
  C8, amended: two runs of \<^verbatim>\<open>getDeployData\<close> with the same validations, the same
  bytecode, the same encoding of the constructor arguments by the interface of the
  factory and the same constructor arguments give the same version (or the same error),
  whatever the network, the file system, the runtime environment and the other options
  are.
\<close>

theorem version_depends_on_validations_bytecode_interface_args:
  assumes "readValidations env hre1 w1 = readValidations env hre2 w2"
    and "bytecode F1 = bytecode F2"
    and "encodeDeploy (interface F1) = encodeDeploy (interface F2)"
    and "Options.constructorArgs opts1 = Options.constructorArgs opts2"
  shows "map_sum id version (result_of (getDeployData env hre1 F1 opts1 w1))
       = map_sum id version (result_of (getDeployData env hre2 F2 opts2 w2))"
  using assms by (simp add: getDeployData_def split: sum.splits)

theorem version_depends_on_validations_bytecode_interface_args_witness:
  "readValidations example_env example_hre world_empty
     = readValidations example_env (example_hre\<lparr>network_provider := 1\<rparr>) world_V2
   \<and> map_sum id version
        (result_of (getDeployData example_env example_hre factory_V1 args_opts world_empty))
      = map_sum id version
        (result_of (getDeployData example_env (example_hre\<lparr>network_provider := 1\<rparr>)
           factory_V1 (args_opts\<lparr>Options.kind := Some UUPS\<rparr>) world_V2))"
proof -
  have same: "readValidations example_env example_hre world_empty
     = readValidations example_env (example_hre\<lparr>network_provider := 1\<rparr>) world_V2"
    by (simp add: example_env_sel)
  have args: "Options.constructorArgs args_opts
     = Options.constructorArgs (args_opts\<lparr>Options.kind := Some UUPS\<rparr>)"
    by simp
  from version_depends_on_validations_bytecode_interface_args [OF same refl refl args]
  show ?thesis using same by simp
qed

section \<open>A first deployment\<close>




section \<open>What a new record carries\<close>



end
